theory Spec2Isabelle
  imports Main "HOL-Library.Multiset"
begin

section \<open>TaskLauncher: the bounded unit generator\<close>

text \<open>
  Source: \<^verbatim>\<open>src/mephisto/core/task_launcher.py\<close>. A \<^verbatim>\<open>Unit\<close> is a handle on a
  database row and is identified by its \<^verbatim>\<open>db_id\<close>.
\<close>

type_synonym unit_id = string

text \<open>
  Modelled from the spec: \<^verbatim>\<open>AssignmentState\<close>, declared in
  \<^verbatim>\<open>mephisto.data_model.assignment\<close>, which is not among the source files. The generator
  compares a unit's status with the two constants \<^verbatim>\<open>LAUNCHED\<close> and \<^verbatim>\<open>ASSIGNED\<close> (the
  states of invariant I5 of the spec) and with nothing else; every other value is
  \<open>OTHER_STATE\<close>.
\<close>

datatype assignment_state = LAUNCHED | ASSIGNED | OTHER_STATE string

text \<open>The exceptions the modelled code can raise.\<close>

datatype error = IndexError | KeyError string | TypeError

text \<open>
  The fields of \<^verbatim>\<open>TaskLauncher\<close> that \<^verbatim>\<open>generate_units\<close> reads and writes.
  \<^verbatim>\<open>max_num_concurrent_units\<close> is a Python \<^verbatim>\<open>int\<close>.
\<close>

record task_launcher =
  max_num_concurrent_units :: int
  launched_units :: "unit_id list"
  unlaunched_units :: "unit_id list"

text \<open>
  A running \<^verbatim>\<open>generate_units()\<close> generator: the launcher it mutates, and what it has done
  so far. \<open>yielded\<close> lists the units yielded, in order. \<open>launched_history\<close> records the
  value of \<^verbatim>\<open>self.launched_units\<close> after every statement that changes it, so that a bound
  on every entry is a bound throughout the execution. \<open>raised\<close> is the exception that
  ended the generator, \<open>returned\<close> says that it left the \<^verbatim>\<open>while True\<close> loop through
  \<^verbatim>\<open>break\<close>.
\<close>

record generator = task_launcher +
  yielded :: "unit_id list"
  launched_history :: "unit_id list list"
  raised :: "error option"
  returned :: bool

text \<open>\<^verbatim>\<open>xs.pop(i)\<close> for an index in range; the callers below check the range first.\<close>

definition pop :: "nat \<Rightarrow> 'a list \<Rightarrow> 'a list" where
  "pop i xs = take i xs @ drop (Suc i) xs"

text \<open>
  The reap loop, lines 103-110:
  \<^verbatim>\<open>for i in range(len(self.launched_units)):\<close> evaluates the range once, to \<open>n\<close>;
  \<open>reap_loop get_status i n\<close> runs the iterations \<open>i, ..., n - 1\<close>. Reading
  \<^verbatim>\<open>self.launched_units[i]\<close> past the end of the (shrunk) list raises IndexError.
  \<open>get_status\<close> gives the status \<^verbatim>\<open>unit.get_status()\<close> reports during this pass.
\<close>

function reap_loop ::
  "(unit_id \<Rightarrow> assignment_state) \<Rightarrow> nat \<Rightarrow> nat \<Rightarrow> generator \<Rightarrow> generator" where
  "reap_loop get_status i n g =
     (if i < n then
        (if i < length (launched_units g) then
           (let unit = launched_units g ! i;
                status = get_status unit
            in if status \<noteq> LAUNCHED \<and> status \<noteq> ASSIGNED
               then reap_loop get_status (Suc i) n
                      (g\<lparr>launched_units := pop i (launched_units g),
                         launched_history := launched_history g @ [pop i (launched_units g)]\<rparr>)
               else reap_loop get_status (Suc i) n g)
         else g\<lparr>raised := Some IndexError\<rparr>)
      else g)"
  by pat_completeness auto
termination
  by (relation "measure (\<lambda>(get_status, i, n, g). n - i)") auto

text \<open>
  The launch loop, lines 113-120: \<open>n\<close> is \<^verbatim>\<open>len(self.unlaunched_units)\<close> when the loop
  starts; the \<^verbatim>\<open>else: break\<close> branch ends the loop.
\<close>

function launch_loop :: "nat \<Rightarrow> nat \<Rightarrow> int \<Rightarrow> generator \<Rightarrow> generator" where
  "launch_loop i n num_avail_units g =
     (if i < n then
        (if int i < num_avail_units then
           (if i < length (unlaunched_units g) then
              (let unit = unlaunched_units g ! i
               in launch_loop (Suc i) n num_avail_units
                    (g\<lparr>launched_units := launched_units g @ [unit],
                       unlaunched_units := pop i (unlaunched_units g),
                       yielded := yielded g @ [unit],
                       launched_history := launched_history g @ [launched_units g @ [unit]]\<rparr>))
            else g\<lparr>raised := Some IndexError\<rparr>)
         else g)
      else g)"
  by pat_completeness auto
termination
  by (relation "measure (\<lambda>(i, n, num_avail_units, g). n - i)") auto

definition reap_pass :: "(unit_id \<Rightarrow> assignment_state) \<Rightarrow> generator \<Rightarrow> generator" where
  "reap_pass get_status g = reap_loop get_status 0 (length (launched_units g)) g"

definition launch_pass :: "generator \<Rightarrow> generator" where
  "launch_pass g =
     (let num_avail_units = max_num_concurrent_units g - int (length (launched_units g))
      in launch_loop 0 (length (unlaunched_units g)) num_avail_units g)"

text \<open>
  The \<^verbatim>\<open>while True\<close> loop. Each pass sees the statuses the units have at that time, so
  an execution is driven by the list of the status readings of its passes; when the list
  is used up the generator is still running (neither \<open>raised\<close> nor \<open>returned\<close>).
  \<^verbatim>\<open>time.sleep(10)\<close> has no effect on the state.
\<close>

fun generate_units_loop ::
  "(unit_id \<Rightarrow> assignment_state) list \<Rightarrow> generator \<Rightarrow> generator" where
  "generate_units_loop [] g = g"
| "generate_units_loop (get_status # later) g =
     (let g1 = reap_pass get_status g in
      if raised g1 \<noteq> None then g1
      else let g2 = launch_pass g1 in
           if raised g2 \<noteq> None then g2
           else if unlaunched_units g2 = [] then g2\<lparr>returned := True\<rparr>
           else generate_units_loop later g2)"

definition generate_units ::
  "(unit_id \<Rightarrow> assignment_state) list \<Rightarrow> task_launcher \<Rightarrow> generator" where
  "generate_units passes self =
     generate_units_loop passes
       \<lparr>max_num_concurrent_units = max_num_concurrent_units self,
        launched_units = launched_units self,
        unlaunched_units = unlaunched_units self,
        yielded = [],
        launched_history = [launched_units self],
        raised = None,
        returned = False\<rparr>"

text \<open>
  \<^verbatim>\<open>_launch_limited_units(url)\<close> calls \<^verbatim>\<open>unit.launch(url)\<close> on every unit the generator
  yields; the result lists these calls in order.
\<close>

definition launch_limited_units ::
  "string \<Rightarrow> (unit_id \<Rightarrow> assignment_state) list \<Rightarrow> task_launcher \<Rightarrow> (unit_id \<times> string) list" where
  "launch_limited_units url passes self =
     map (\<lambda>unit. (unit, url)) (yielded (generate_units passes self))"

section \<open>Supervisor: data model\<close>

text \<open>Source: \<^verbatim>\<open>src/mephisto/core/supervisor.py\<close>.\<close>

text \<open>
  Modelled from the spec: the \<^verbatim>\<open>AgentState.STATUS_*\<close> constants, declared in
  \<^verbatim>\<open>mephisto.data_model.blueprint\<close>, which is not among the source files. The spec
  (section 4.4) lists them as an enum; the supervisor names these nine. Any other status
  value, such as an unknown string reported by the server, is \<open>STATUS_OTHER\<close>.
\<close>

datatype agent_status =
    STATUS_NONE
  | STATUS_ONBOARDING
  | STATUS_WAITING
  | STATUS_IN_TASK
  | STATUS_COMPLETED
  | STATUS_DISCONNECT
  | STATUS_TIMEOUT
  | STATUS_PARTNER_DISCONNECT
  | STATUS_EXPIRED
  | STATUS_OTHER string

text \<open>
  \<^verbatim>\<open>AgentState.valid()\<close> and \<^verbatim>\<open>AgentState.complete()\<close> return lists of statuses; their
  contents are not in the source files, so they are parameters of the functions that
  call them.
\<close>

record agent_state =
  valid :: "agent_status list"
  complete :: "agent_status list"

text \<open>
  Python values that travel in \<^verbatim>\<open>packet.data\<close>; a dict literal is the list of its items
  in the order written.
\<close>

datatype py_value =
    PyNone
  | PyStr string
  | PyBool bool
  | PyStatus agent_status
  | PyDict "(string \<times> py_value) list"

datatype packet_type =
    PACKET_TYPE_ALIVE
  | PACKET_TYPE_AGENT_ACTION
  | PACKET_TYPE_NEW_AGENT
  | PACKET_TYPE_NEW_WORKER
  | PACKET_TYPE_REQUEST_AGENT_STATUS
  | PACKET_TYPE_RETURN_AGENT_STATUS
  | PACKET_TYPE_INIT_DATA
  | PACKET_TYPE_GET_INIT_DATA
  | PACKET_TYPE_PROVIDER_DETAILS
  | PACKET_TYPE_SUBMIT_ONBOARDING
  | PACKET_TYPE_REQUEST_ACTION
  | PACKET_TYPE_UPDATE_AGENT_STATUS

record packet =
  packet_type :: packet_type
  sender_id :: string
  receiver_id :: string
  data :: "(string \<times> py_value) list"

text \<open>
  \<^verbatim>\<open>AgentInfo\<close> objects are shared between the two indexes of the supervisor and the
  arguments of the threads, and are mutated in place, so they live in a store and are
  named by reference.
\<close>

type_synonym ref = nat

text \<open>
  A \<^verbatim>\<open>threading.Thread\<close>: the function it runs with the arguments that identify its work
  (the task runner argument is left out), and its name.
\<close>

datatype thread_target =
    Launch_and_run_unit unit_id ref
  | Launch_and_run_assignment string "ref list"
  | Launch_and_run_onboarding ref

record thread =
  target :: thread_target
  thread_name :: string

text \<open>
  Modelled from the spec: \<^verbatim>\<open>Agent\<close> and \<^verbatim>\<open>OnboardingAgent\<close>
  (\<^verbatim>\<open>mephisto.data_model.agent\<close>, not among the source files). Spec section 3: each carries
  a \<open>db_status\<close>, a queue of pending observations and the event flags; the fields below are
  the ones the modelled handlers touch. \<open>init_state\<close> is what
  \<^verbatim>\<open>state.set_init_state\<close> stored.
\<close>

record agent =
  db_id :: string
  db_status :: agent_status
  has_updated_status :: bool
  pending_observations :: "packet list"
  init_state :: "py_value option"

text \<open>
  Modelled from the spec: the methods \<^verbatim>\<open>get_agent_id\<close>, \<^verbatim>\<open>get_status\<close> and
  \<^verbatim>\<open>update_status\<close> of these two classes. The supervisor keys \<open>agents\<close> by
  \<^verbatim>\<open>get_agent_id()\<close> and looks agents up by \<^verbatim>\<open>db_id\<close> (line 431), so the two agree; the
  status read and written is \<open>db_status\<close> (spec section 4.4, rule 8: "adopt the server's
  status on the agent").
\<close>

definition get_agent_id :: "agent \<Rightarrow> string" where
  "get_agent_id a = db_id a"

definition get_status :: "agent \<Rightarrow> agent_status" where
  "get_status a = db_status a"

definition update_status :: "agent_status \<Rightarrow> agent \<Rightarrow> agent" where
  "update_status status a = a\<lparr>db_status := status\<rparr>"

record agent_info =
  agent :: agent
  used_channel_id :: string
  assignment_thread :: "thread option"

text \<open>
  What the supervisor does to the world outside it, in the order it does it: calls of the
  collaborators that have an effect or whose answer can change, and the writes to the two
  agent indexes. The answer of a collaborator may depend on everything that happened
  before, so each of them is a function of its arguments and of the events so far.
\<close>

datatype event =
    Reserve_unit unit_id "unit_id option"
  | New_from_provider_data unit_id string
  | Onboarding_agent_new string
  | Set_agents string ref
  | Set_agents_by_registration_id py_value ref
  | Clear_reservation unit_id
  | Thread_start thread
  | Channel_send string packet bool

text \<open>
  The collaborators, as the handlers reach them: \<^verbatim>\<open>channel_info.job.task_runner.task_run\<close>,
  \<^verbatim>\<open>channel_info.job.provider\<close>, \<^verbatim>\<open>channel_info.channel\<close> and \<^verbatim>\<open>self.db\<close>. None of their
  classes is among the source files; every method the handlers call is a field here.
  \<open>use_onboarding\<close> stands for the test
  \<^verbatim>\<open>isinstance(blueprint, OnboardingRequired) and blueprint.use_onboarding\<close>;
  \<open>new_from_provider_data\<close> is \<^verbatim>\<open>provider.AgentClass.new_from_provider_data\<close>; \<open>channel\<close> is
  the \<^verbatim>\<open>send\<close> method of the channel. A worker is identified by its \<^verbatim>\<open>worker_id\<close>; the
  methods of \<^verbatim>\<open>Worker\<close>, \<^verbatim>\<open>OnboardingAgent.new\<close>, \<^verbatim>\<open>unit.get_assignment\<close> and
  \<^verbatim>\<open>assignment.get_agents\<close> (the \<^verbatim>\<open>db_id\<close> of each agent, or None) read the database.
\<close>

record blueprint =
  use_onboarding :: bool
  onboarding_qualification_name :: string
  get_onboarding_data :: "py_value \<Rightarrow> event list \<Rightarrow> py_value"

record task_run =
  reserve_unit :: "unit_id \<Rightarrow> event list \<Rightarrow> unit_id option"
  get_valid_units_for_worker :: "py_value \<Rightarrow> event list \<Rightarrow> unit_id list"
  get_blueprint :: blueprint

record task_runner =
  task_run :: task_run
  is_concurrent :: bool

record crowd_provider =
  new_from_provider_data ::
    "py_value \<Rightarrow> unit_id \<Rightarrow> (string \<times> py_value) list \<Rightarrow> event list \<Rightarrow> agent"

record job =
  task_runner :: task_runner
  provider :: crowd_provider

record channel_info =
  channel_id :: string
  job :: job
  channel :: "packet \<Rightarrow> event list \<Rightarrow> bool"

record mephisto_db =
  is_disqualified :: "py_value \<Rightarrow> string \<Rightarrow> event list \<Rightarrow> bool"
  is_qualified :: "py_value \<Rightarrow> string \<Rightarrow> event list \<Rightarrow> bool"
  onboarding_agent_new :: "py_value \<Rightarrow> event list \<Rightarrow> agent"
  get_assignment :: "unit_id \<Rightarrow> event list \<Rightarrow> string"
  get_agents :: "string \<Rightarrow> event list \<Rightarrow> string option list"

text \<open>
  The supervisor: its fields, the store of its \<^verbatim>\<open>AgentInfo\<close> objects (\<open>next_ref\<close> is the
  next unused reference) and the events so far.
\<close>

record supervisor =
  db :: mephisto_db
  agents :: "string \<rightharpoonup> ref"
  agents_by_registration_id :: "py_value \<rightharpoonup> ref"
  channels :: "string \<rightharpoonup> channel_info"
  onboarding_packets :: "string \<rightharpoonup> packet"
  message_queue :: "packet list"
  agent_infos :: "ref \<Rightarrow> agent_info"
  next_ref :: ref
  trace :: "event list"

text \<open>
  A call either returns or raises; both leave a state behind, the one with the writes
  made before the exception.
\<close>

datatype outcome = Returned supervisor | Raised error supervisor

fun state_of :: "outcome \<Rightarrow> supervisor" where
  "state_of (Returned s) = s"
| "state_of (Raised e s) = s"

fun and_then :: "outcome \<Rightarrow> (supervisor \<Rightarrow> outcome) \<Rightarrow> outcome" where
  "and_then (Returned s) f = f s"
| "and_then (Raised e s) f = Raised e s"

text \<open>The events a call added to the trace that stood at \<open>s\<close>.\<close>

definition new_events :: "supervisor \<Rightarrow> supervisor \<Rightarrow> event list" where
  "new_events s s' = drop (length (trace s)) (trace s')"

definition SYSTEM_CHANNEL_ID :: string where
  "SYSTEM_CHANNEL_ID = ''mephisto''"

definition STATUS_TO_TEXT_MAP :: "agent_status \<rightharpoonup> string" where
  "STATUS_TO_TEXT_MAP =
     [STATUS_EXPIRED \<mapsto>
        ''This task is no longer available to be completed. Please return it and try a different task'',
      STATUS_TIMEOUT \<mapsto>
        ''You took to long to respond to this task, and have timed out. The task is no longer available, please return it.'',
      STATUS_DISCONNECT \<mapsto>
        ''You have disconnected from our server during the duration of the task. If you have done substantial work, please reach out to see if we can recover it. '',
      STATUS_PARTNER_DISCONNECT \<mapsto>
        ''One of your partners has disconnected while working on this task. We won't penalize you for them leaving, so please submit this task as is.'']"

text \<open>\<^verbatim>\<open>d[key]\<close> on a dict; None stands for KeyError.\<close>

definition getitem :: "(string \<times> py_value) list \<Rightarrow> string \<Rightarrow> py_value option" where
  "getitem d key = map_of d key"

text \<open>
  \<^verbatim>\<open>crowd_data = packet.data["provider_data"]\<close>, later subscripted: the value has to be a
  dict.
\<close>

definition provider_data :: "packet \<Rightarrow> error + (string \<times> py_value) list" where
  "provider_data packet =
     (case getitem (data packet) ''provider_data'' of
        None \<Rightarrow> Inl (KeyError ''provider_data'')
      | Some (PyDict crowd_data) \<Rightarrow> Inr crowd_data
      | Some _ \<Rightarrow> Inl TypeError)"

text \<open>
  The keys of \<^verbatim>\<open>agents_by_registration_id\<close> come out of \<^verbatim>\<open>packet.data\<close>. A dict takes
  hashable keys only: None, strings and booleans are hashable, a dict is not.
\<close>

definition hashable :: "py_value \<Rightarrow> bool" where
  "hashable v = (case v of PyDict d \<Rightarrow> False | _ \<Rightarrow> True)"

text \<open>
  \<^verbatim>\<open>key in index\<close> followed by \<^verbatim>\<open>index[key]\<close>, for \<^verbatim>\<open>self.agents_by_registration_id\<close>: the
  entry under the key, None when there is none, and TypeError when the key is unhashable.
  No dict holds an unhashable key, so a key that has an entry is hashable.
\<close>

definition lookup_registration :: "(py_value \<rightharpoonup> ref) \<Rightarrow> py_value \<Rightarrow> error + ref option" where
  "lookup_registration index key =
     (case index key of
        Some r \<Rightarrow> Inr (Some r)
      | None \<Rightarrow> if hashable key then Inr None else Inl TypeError)"

text \<open>Mutation of the \<^verbatim>\<open>AgentInfo\<close> object \<open>r\<close>, and of the agent it holds.\<close>

definition update_agent_info :: "ref \<Rightarrow> (agent_info \<Rightarrow> agent_info) \<Rightarrow> supervisor \<Rightarrow> supervisor" where
  "update_agent_info r f s = s\<lparr>agent_infos := (agent_infos s)(r := f (agent_infos s r))\<rparr>"

definition update_agent :: "ref \<Rightarrow> (agent \<Rightarrow> agent) \<Rightarrow> supervisor \<Rightarrow> supervisor" where
  "update_agent r f s = update_agent_info r (\<lambda>info. info\<lparr>agent := f (agent info)\<rparr>) s"

definition log_event :: "event \<Rightarrow> supervisor \<Rightarrow> supervisor" where
  "log_event ev s = s\<lparr>trace := trace s @ [ev]\<rparr>"

section \<open>Supervisor: registration\<close>

text \<open>
  The statement that every registration reply is made of:
  \<^verbatim>\<open>self.message_queue.append(Packet(packet_type=PACKET_TYPE_PROVIDER_DETAILS,
  sender_id=SYSTEM_CHANNEL_ID, receiver_id=channel_info.channel_id,
  data={"request_id": packet.data["request_id"], ...}))\<close>, with the further items of the
  dict as \<open>items\<close>. Reading \<^verbatim>\<open>packet.data["request_id"]\<close> can raise KeyError.
\<close>

definition enqueue_provider_details ::
  "packet \<Rightarrow> channel_info \<Rightarrow> (string \<times> py_value) list \<Rightarrow> supervisor \<Rightarrow> outcome" where
  "enqueue_provider_details packet channel_info items s =
     (case getitem (data packet) ''request_id'' of
        None \<Rightarrow> Raised (KeyError ''request_id'') s
      | Some request_id \<Rightarrow>
          Returned (s\<lparr>message_queue := message_queue s @
            [\<lparr>packet_type = PACKET_TYPE_PROVIDER_DETAILS,
              sender_id = SYSTEM_CHANNEL_ID,
              receiver_id = channel_id channel_info,
              data = (''request_id'', request_id) # items\<rparr>]\<rparr>))"

text \<open>
  Lines 376-379 of \<^verbatim>\<open>_assign_unit_to_agent\<close>: the loop pops the head of \<open>units\<close> and tries to
  reserve it, until one reservation succeeds or the list is empty. The result holds the
  loop's \<open>unit\<close> and \<open>reserved_unit\<close> when a reservation succeeded.
\<close>

fun reserve_loop ::
  "task_run \<Rightarrow> unit_id list \<Rightarrow> supervisor \<Rightarrow> (unit_id \<times> unit_id) option \<times> supervisor" where
  "reserve_loop tr [] s = (None, s)"
| "reserve_loop tr (unit # units) s =
     (let reserved_unit = reserve_unit tr unit (trace s);
          s1 = log_event (Reserve_unit unit reserved_unit) s
      in case reserved_unit of
           None \<Rightarrow> reserve_loop tr units s1
         | Some reserved \<Rightarrow> (Some (unit, reserved), s1))"

text \<open>
  Line 431: \<^verbatim>\<open>[self.agents[a.db_id] for a in agents if a is not None]\<close>; an agent the
  supervisor does not track raises KeyError.
\<close>

fun agent_infos_for :: "(string \<rightharpoonup> ref) \<Rightarrow> string option list \<Rightarrow> error + ref list" where
  "agent_infos_for index [] = Inr []"
| "agent_infos_for index (None # rest) = agent_infos_for index rest"
| "agent_infos_for index (Some a # rest) =
     (case index a of
        None \<Rightarrow> Inl (KeyError a)
      | Some r \<Rightarrow>
          (case agent_infos_for index rest of
             Inl e \<Rightarrow> Inl e
           | Inr refs \<Rightarrow> Inr (r # refs)))"

text \<open>
  Lines 413-443 of \<^verbatim>\<open>_assign_unit_to_agent\<close> ("Launch individual tasks"), for the unit
  just assigned and the \<^verbatim>\<open>AgentInfo\<close> \<open>r\<close> just installed.
\<close>

definition launch_tasks :: "channel_info \<Rightarrow> unit_id \<Rightarrow> ref \<Rightarrow> supervisor \<Rightarrow> outcome" where
  "launch_tasks channel_info unit r s =
     (if \<not> is_concurrent (task_runner (job channel_info)) then
        (let unit_thread = \<lparr>target = Launch_and_run_unit unit r,
                            thread_name = ''Unit-thread-'' @ unit\<rparr>;
             s1 = update_agent_info r (\<lambda>info. info\<lparr>assignment_thread := Some unit_thread\<rparr>) s
         in Returned (log_event (Thread_start unit_thread) s1))
      else
        (let assignment = get_assignment (db s) unit (trace s);
             assignment_agents = get_agents (db s) assignment (trace s)
         in if None \<in> set assignment_agents then
              Returned (update_agent r (update_status STATUS_WAITING) s)
            else
              (case agent_infos_for (agents s) assignment_agents of
                 Inl e \<Rightarrow> Raised e s
               | Inr refs \<Rightarrow>
                   (let assign_thread = \<lparr>target = Launch_and_run_assignment assignment refs,
                                          thread_name = ''Assignment-thread-'' @ assignment\<rparr>;
                        s1 = fold (\<lambda>r' s'.
                                     update_agent_info r'
                                       (\<lambda>info. info\<lparr>assignment_thread := Some assign_thread\<rparr>)
                                       (update_agent r' (update_status STATUS_IN_TASK) s'))
                                  refs s
                    in Returned (log_event (Thread_start assign_thread) s1)))))"

text \<open>
  \<^verbatim>\<open>_assign_unit_to_agent\<close>, lines 366-411, followed by \<open>launch_tasks\<close>. The store under
  \<^verbatim>\<open>crowd_data["agent_registration_id"]\<close> (lines 406-408) raises KeyError when the item is
  missing and TypeError when it is unhashable, after \<^verbatim>\<open>self.agents\<close> has been written and
  before \<^verbatim>\<open>clear_reservation\<close>.
\<close>

definition assign_unit_to_agent ::
  "packet \<Rightarrow> channel_info \<Rightarrow> unit_id list \<Rightarrow> supervisor \<Rightarrow> outcome" where
  "assign_unit_to_agent packet channel_info units s =
     (case provider_data packet of
        Inl e \<Rightarrow> Raised e s
      | Inr crowd_data \<Rightarrow>
     (case getitem crowd_data ''worker_id'' of
        None \<Rightarrow> Raised (KeyError ''worker_id'') s
      | Some worker_id \<Rightarrow>
     (case reserve_loop (task_run (task_runner (job channel_info))) units s of
        (None, s1) \<Rightarrow>
          enqueue_provider_details packet channel_info [(''agent_id'', PyNone)] s1
      | (Some (unit, reserved_unit), s1) \<Rightarrow>
          (let new_agent = new_from_provider_data (provider (job channel_info))
                             worker_id unit crowd_data (trace s1);
               s2 = log_event (New_from_provider_data unit (get_agent_id new_agent)) s1
           in and_then
                (enqueue_provider_details packet channel_info
                   [(''agent_id'', PyStr (get_agent_id new_agent))] s2)
                (\<lambda>s3.
                   let r = next_ref s3;
                       s4 = s3\<lparr>agent_infos := (agent_infos s3)
                                 (r := \<lparr>agent = new_agent,
                                        used_channel_id = channel_id channel_info,
                                        assignment_thread = None\<rparr>),
                               next_ref := Suc r\<rparr>;
                       s5 = log_event (Set_agents (get_agent_id new_agent) r)
                              (s4\<lparr>agents := (agents s4)(get_agent_id new_agent \<mapsto> r)\<rparr>)
                   in case getitem crowd_data ''agent_registration_id'' of
                        None \<Rightarrow> Raised (KeyError ''agent_registration_id'') s5
                      | Some agent_registration_id \<Rightarrow>
                          if \<not> hashable agent_registration_id then Raised TypeError s5
                          else
                            (let s6 = log_event
                                        (Set_agents_by_registration_id agent_registration_id r)
                                        (s5\<lparr>agents_by_registration_id :=
                                              (agents_by_registration_id s5)
                                                (agent_registration_id \<mapsto> r)\<rparr>);
                                 s7 = log_event (Clear_reservation unit) s6
                             in launch_tasks channel_info unit r s7))))))"

text \<open>
  Lines 548-582 of \<^verbatim>\<open>_register_agent\<close>: the worker has to go through onboarding first.
\<close>

definition start_onboarding ::
  "packet \<Rightarrow> channel_info \<Rightarrow> py_value \<Rightarrow> supervisor \<Rightarrow> outcome" where
  "start_onboarding packet channel_info worker_id s =
     (let onboard_data = get_onboarding_data
                           (get_blueprint (task_run (task_runner (job channel_info))))
                           worker_id (trace s);
          created = onboarding_agent_new (db s) worker_id (trace s);
          s1 = log_event (Onboarding_agent_new (get_agent_id created)) s;
          onboard_agent = created\<lparr>init_state := Some onboard_data\<rparr>;
          r = next_ref s1;
          s2 = s1\<lparr>agent_infos := (agent_infos s1)
                    (r := \<lparr>agent = onboard_agent,
                           used_channel_id = channel_id channel_info,
                           assignment_thread = None\<rparr>),
                  next_ref := Suc r\<rparr>;
          onboard_id = get_agent_id onboard_agent;
          s3 = log_event (Set_agents onboard_id r)
                 (s2\<lparr>agents := (agents s2)(onboard_id \<mapsto> r)\<rparr>);
          s4 = s3\<lparr>onboarding_packets := (onboarding_packets s3)(onboard_id \<mapsto> packet)\<rparr>
      in and_then
           (enqueue_provider_details packet channel_info
              [(''agent_id'', PyStr onboard_id), (''onboard_data'', onboard_data)] s4)
           (\<lambda>s5.
              let onboard_thread = \<lparr>target = Launch_and_run_onboarding r,
                                     thread_name = ''Onboard-thread-'' @ onboard_id\<rparr>;
                  s6 = update_agent r (update_status STATUS_ONBOARDING) s5;
                  s7 = update_agent_info r
                         (\<lambda>info. info\<lparr>assignment_thread := Some onboard_thread\<rparr>) s6
              in Returned (log_event (Thread_start onboard_thread) s7)))"

text \<open>
  Lines 511-585 of \<^verbatim>\<open>_register_agent\<close> ("Process a new agent"): the registration id is
  not known. The reply for an empty list of units is followed by no \<^verbatim>\<open>return\<close>.
\<close>

definition register_new_agent ::
  "packet \<Rightarrow> channel_info \<Rightarrow> (string \<times> py_value) list \<Rightarrow> supervisor \<Rightarrow> outcome" where
  "register_new_agent packet channel_info crowd_data s =
     (case getitem crowd_data ''worker_id'' of
        None \<Rightarrow> Raised (KeyError ''worker_id'') s
      | Some worker_id \<Rightarrow>
          (let tr = task_run (task_runner (job channel_info));
               units = get_valid_units_for_worker tr worker_id (trace s)
           in and_then
                (if length units = 0
                 then enqueue_provider_details packet channel_info [(''agent_id'', PyNone)] s
                 else Returned s)
                (\<lambda>s1.
                   let bp = get_blueprint tr in
                   if use_onboarding bp then
                     (if is_disqualified (db s1) worker_id
                           (onboarding_qualification_name bp) (trace s1)
                      then enqueue_provider_details packet channel_info
                             [(''agent_id'', PyNone)] s1
                      else if \<not> is_qualified (db s1) worker_id
                                  (onboarding_qualification_name bp) (trace s1)
                      then start_onboarding packet channel_info worker_id s1
                      else assign_unit_to_agent packet channel_info units s1)
                   else assign_unit_to_agent packet channel_info units s1)))"

text \<open>
  \<^verbatim>\<open>_register_agent\<close>, lines 489-509, followed by \<open>register_new_agent\<close>. The membership
  test of line 494 raises TypeError for an unhashable registration id, before anything is
  done.
\<close>

definition register_agent :: "packet \<Rightarrow> channel_info \<Rightarrow> supervisor \<Rightarrow> outcome" where
  "register_agent packet channel_info s =
     (case provider_data packet of
        Inl e \<Rightarrow> Raised e s
      | Inr crowd_data \<Rightarrow>
     (case getitem crowd_data ''agent_registration_id'' of
        None \<Rightarrow> Raised (KeyError ''agent_registration_id'') s
      | Some agent_registration_id \<Rightarrow>
     (case lookup_registration (agents_by_registration_id s) agent_registration_id of
        Inl e \<Rightarrow> Raised e s
      | Inr (Some r) \<Rightarrow>
          (let known = agent (agent_infos s r) in
           case agents s (get_agent_id known) of
             None \<Rightarrow> Raised (KeyError (get_agent_id known)) s
           | Some r' \<Rightarrow>
               enqueue_provider_details packet channel_info
                 [(''agent_id'', PyStr (get_agent_id known))]
                 (update_agent_info r'
                    (\<lambda>info. info\<lparr>used_channel_id := channel_id channel_info\<rparr>) s))
      | Inr None \<Rightarrow> register_new_agent packet channel_info crowd_data s)))"

section \<open>Supervisor: status updates and outgoing queues\<close>

definition send_status_update :: "ref \<Rightarrow> supervisor \<Rightarrow> outcome" where
  "send_status_update r s =
     (let agent_info = agent_infos s r;
          send_packet =
            \<lparr>packet_type = PACKET_TYPE_UPDATE_AGENT_STATUS,
             sender_id = SYSTEM_CHANNEL_ID,
             receiver_id = get_agent_id (agent agent_info),
             data =
               [(''status'', PyStatus (db_status (agent agent_info))),
                (''state'', PyDict
                   [(''done_text'',
                       (case STATUS_TO_TEXT_MAP (db_status (agent agent_info)) of
                          None \<Rightarrow> PyNone
                        | Some done_text \<Rightarrow> PyStr done_text)),
                    (''task_done'',
                       PyBool (db_status (agent agent_info) = STATUS_PARTNER_DISCONNECT))])]\<rparr>
      in case channels s (used_channel_id agent_info) of
           None \<Rightarrow> Raised (KeyError (used_channel_id agent_info)) s
         | Some channel_info \<Rightarrow>
             Returned (log_event
               (Channel_send (channel_id channel_info) send_packet
                  (channel channel_info send_packet (trace s))) s))"

definition mark_agent_done :: "agent_state \<Rightarrow> ref \<Rightarrow> supervisor \<Rightarrow> outcome" where
  "mark_agent_done AgentState r s =
     (let agent_info = agent_infos s r in
      if db_status (agent agent_info) \<in> set (complete AgentState @ [STATUS_PARTNER_DISCONNECT])
      then Returned s
      else
        (let send_packet =
               \<lparr>packet_type = PACKET_TYPE_UPDATE_AGENT_STATUS,
                sender_id = SYSTEM_CHANNEL_ID,
                receiver_id = get_agent_id (agent agent_info),
                data =
                  [(''status'', PyStr ''completed''),
                   (''state'', PyDict
                      [(''done_text'', PyStr ''You have completed this task. Please submit.''),
                       (''task_done'', PyBool True)])]\<rparr>
         in case channels s (used_channel_id agent_info) of
              None \<Rightarrow> Raised (KeyError (used_channel_id agent_info)) s
            | Some channel_info \<Rightarrow>
                Returned (log_event
                  (Channel_send (channel_id channel_info) send_packet
                     (channel channel_info send_packet (trace s))) s)))"

text \<open>
  The body of the loop of \<^verbatim>\<open>_handle_updated_agent_status\<close> for one item of
  \<^verbatim>\<open>status_map\<close>; \<^verbatim>\<open>continue\<close> ends the body. The \<^verbatim>\<open>print\<close> calls are left out.
\<close>

definition handle_status_entry :: "agent_state \<Rightarrow> string \<times> agent_status \<Rightarrow> supervisor \<Rightarrow> outcome" where
  "handle_status_entry AgentState entry s =
     (let agent_id = fst entry; status = snd entry in
      if status \<notin> set (valid AgentState) then Returned s
      else
        (case agents s agent_id of
           None \<Rightarrow> Returned s
         | Some r \<Rightarrow>
             (let tracked = agent (agent_infos s r);
                  local_status = get_status tracked
              in if has_updated_status tracked then Returned s
                 else if status = STATUS_NONE then send_status_update r s
                 else if status \<noteq> local_status then
                   (if local_status \<in> set (complete AgentState) then Returned s
                    else if status = STATUS_COMPLETED then Returned s
                    else Returned (update_agent r (update_status status) s))
                 else Returned s)))"

fun handle_updated_agent_status ::
  "agent_state \<Rightarrow> (string \<times> agent_status) list \<Rightarrow> supervisor \<Rightarrow> outcome" where
  "handle_updated_agent_status AgentState [] s = Returned s"
| "handle_updated_agent_status AgentState (entry # status_map) s =
     and_then (handle_status_entry AgentState entry s)
       (handle_updated_agent_status AgentState status_map)"

text \<open>
  The loop of \<^verbatim>\<open>_try_send_agent_messages\<close> on the pending observations of the agent held
  by \<open>r\<close>: \<^verbatim>\<open>pop(0)\<close>, send, and on failure \<^verbatim>\<open>insert(0, curr_obs)\<close> and return.
\<close>

function send_observations_loop :: "ref \<Rightarrow> channel_info \<Rightarrow> supervisor \<Rightarrow> supervisor" where
  "send_observations_loop r channel_info s =
     (case pending_observations (agent (agent_infos s r)) of
        [] \<Rightarrow> s
      | curr_obs # rest \<Rightarrow>
          (let s1 = update_agent r (\<lambda>a. a\<lparr>pending_observations := rest\<rparr>) s;
               did_send = channel channel_info curr_obs (trace s1);
               s2 = log_event (Channel_send (channel_id channel_info) curr_obs did_send) s1
           in if \<not> did_send then
                update_agent r
                  (\<lambda>a. a\<lparr>pending_observations := curr_obs # pending_observations a\<rparr>) s2
              else send_observations_loop r channel_info s2))"
  by pat_completeness auto
termination
  by (relation "measure (\<lambda>(r, channel_info, s).
        length (pending_observations (agent (agent_infos s r))))")
     (auto simp: update_agent_def update_agent_info_def log_event_def)

definition try_send_agent_messages :: "ref \<Rightarrow> supervisor \<Rightarrow> outcome" where
  "try_send_agent_messages r s =
     (case channels s (used_channel_id (agent_infos s r)) of
        None \<Rightarrow> Raised (KeyError (used_channel_id (agent_infos s r))) s
      | Some channel_info \<Rightarrow> Returned (send_observations_loop r channel_info s))"

function send_message_queue :: "supervisor \<Rightarrow> outcome" where
  "send_message_queue s =
     (case message_queue s of
        [] \<Rightarrow> Returned s
      | curr_obs # rest \<Rightarrow>
          (let s1 = s\<lparr>message_queue := rest\<rparr> in
           case channels s1 (receiver_id curr_obs) of
             None \<Rightarrow> Raised (KeyError (receiver_id curr_obs)) s1
           | Some channel_info \<Rightarrow>
               (let did_send = channel channel_info curr_obs (trace s1);
                    s2 = log_event (Channel_send (channel_id channel_info) curr_obs did_send) s1
                in if \<not> did_send then
                     Returned (s2\<lparr>message_queue := curr_obs # message_queue s2\<rparr>)
                   else send_message_queue s2)))"
  by pat_completeness auto
termination
  by (relation "measure (\<lambda>s. length (message_queue s))") (auto simp: log_event_def)

text \<open>
  \<^verbatim>\<open>_on_message\<close> hands every packet of type \<^verbatim>\<open>PACKET_TYPE_NEW_AGENT\<close> to
  \<^verbatim>\<open>_register_agent\<close>, with the \<^verbatim>\<open>ChannelInfo\<close> of the channel it arrived on. This runs
  the handler on a sequence of such arrivals; an exception ends the run.
\<close>

fun register_agents :: "(packet \<times> channel_info) list \<Rightarrow> supervisor \<Rightarrow> outcome" where
  "register_agents [] s = Returned s"
| "register_agents (arrival # later) s =
     and_then (register_agent (fst arrival) (snd arrival) s) (register_agents later)"


section \<open>Vocabulary of the statements\<close>

text \<open>Packets handed to a channel, in order, whatever \<^verbatim>\<open>send\<close> answered.\<close>

fun sent_packets :: "event list \<Rightarrow> packet list" where
  "sent_packets [] = []"
| "sent_packets (Channel_send cid p ok # evs) = p # sent_packets evs"
| "sent_packets (ev # evs) = sent_packets evs"

text \<open>The agents created through the provider, each with the unit it was created for.\<close>

fun created_agents :: "event list \<Rightarrow> (unit_id \<times> string) list" where
  "created_agents [] = []"
| "created_agents (New_from_provider_data unit agent_id # evs) =
     (unit, agent_id) # created_agents evs"
| "created_agents (ev # evs) = created_agents evs"

text \<open>The item \<open>key\<close> of the dict under \<^verbatim>\<open>"state"\<close> of a packet's data.\<close>

definition state_item :: "packet \<Rightarrow> string \<Rightarrow> py_value option" where
  "state_item p key =
     (case getitem (data p) ''state'' of
        Some (PyDict d) \<Rightarrow> getitem d key
      | _ \<Rightarrow> None)"

section \<open>A small deployment, for concrete runs\<close>

text \<open>
  One channel \<open>c1\<close> whose \<^verbatim>\<open>send\<close> succeeds until two calls to the outside have been made;
  a task run in which unit \<open>u1\<close> is reserved by somebody else and every other unit is free;
  a provider that names an agent after its unit. Whether the task runner is concurrent,
  whether the blueprint asks for onboarding, which units are valid for a worker and which
  agents the assignment has are the parameters.
\<close>

definition example_agent :: "string \<Rightarrow> agent_status \<Rightarrow> agent" where
  "example_agent agent_id status =
     \<lparr>db_id = agent_id, db_status = status, has_updated_status = False,
      pending_observations = [], init_state = None\<rparr>"

definition example_job :: "bool \<Rightarrow> bool \<Rightarrow> unit_id list \<Rightarrow> job" where
  "example_job concurrent onboarding valid_units =
     \<lparr>task_runner =
        \<lparr>task_run =
           \<lparr>reserve_unit = (\<lambda>unit events. if unit = ''u1'' then None else Some unit),
            get_valid_units_for_worker = (\<lambda>worker events. valid_units),
            get_blueprint =
              \<lparr>use_onboarding = onboarding,
               onboarding_qualification_name = ''onboarded'',
               get_onboarding_data = (\<lambda>worker events. PyDict [])\<rparr>\<rparr>,
         is_concurrent = concurrent\<rparr>,
      provider =
        \<lparr>new_from_provider_data =
           (\<lambda>worker unit crowd_data events. example_agent (''agent-'' @ unit) STATUS_NONE)\<rparr>\<rparr>"

text \<open>
  Modelled from the spec: a task run whose \<^verbatim>\<open>reserve_unit\<close> is the atomic claim of the
  spec's glossary ("Reserve / clear reservation"; \<^verbatim>\<open>TaskRun\<close> is not among the source
  files): it fails exactly while the unit has been reserved and the reservation has not
  been cleared. \<open>reservation_held unit False events\<close> says whether the unit is reserved after
  the events. The job that uses it has one valid unit, \<open>u2\<close>, and a provider that names an
  agent after the registration id.
\<close>

fun reservation_held :: "unit_id \<Rightarrow> bool \<Rightarrow> event list \<Rightarrow> bool" where
  "reservation_held unit held [] = held"
| "reservation_held unit held (Reserve_unit u (Some reserved) # evs) =
     reservation_held unit (held \<or> u = unit) evs"
| "reservation_held unit held (Clear_reservation u # evs) =
     reservation_held unit (held \<and> u \<noteq> unit) evs"
| "reservation_held unit held (ev # evs) = reservation_held unit held evs"

definition example_locking_job :: job where
  "example_locking_job =
     \<lparr>task_runner =
        \<lparr>task_run =
           \<lparr>reserve_unit =
              (\<lambda>unit events. if reservation_held unit False events then None else Some unit),
            get_valid_units_for_worker = (\<lambda>worker events. [''u2'']),
            get_blueprint =
              \<lparr>use_onboarding = False,
               onboarding_qualification_name = ''onboarded'',
               get_onboarding_data = (\<lambda>worker events. PyDict [])\<rparr>\<rparr>,
         is_concurrent = False\<rparr>,
      provider =
        \<lparr>new_from_provider_data =
           (\<lambda>worker unit crowd_data events.
              example_agent
                (''agent-of-'' @
                   (case getitem crowd_data ''agent_registration_id'' of
                      Some (PyStr registration_id) \<Rightarrow> registration_id
                    | _ \<Rightarrow> []))
                STATUS_NONE)\<rparr>\<rparr>"


definition example_channel_info :: "job \<Rightarrow> channel_info" where
  "example_channel_info j =
     \<lparr>channel_id = ''c1'', job = j, channel = (\<lambda>packet events. length events < 2)\<rparr>"

definition example_db :: "string option list \<Rightarrow> mephisto_db" where
  "example_db assignment_agents =
     \<lparr>is_disqualified = (\<lambda>worker qualification events. False),
      is_qualified = (\<lambda>worker qualification events. False),
      onboarding_agent_new =
        (\<lambda>worker events.
           example_agent (if events = [] then ''onboarding-1'' else ''onboarding-2'') STATUS_NONE),
      get_assignment = (\<lambda>unit events. ''a1''),
      get_agents = (\<lambda>assignment events. assignment_agents)\<rparr>"

definition example_packet :: "string \<Rightarrow> string \<Rightarrow> packet" where
  "example_packet request_id registration_id =
     \<lparr>packet_type = PACKET_TYPE_NEW_AGENT, sender_id = ''client'', receiver_id = ''mephisto'',
      data = [(''request_id'', PyStr request_id),
              (''provider_data'',
                 PyDict [(''agent_registration_id'', PyStr registration_id),
                         (''worker_id'', PyStr ''w1'')])]\<rparr>"

text \<open>A supervisor that tracks nobody, and one that tracks the agents given, in order.\<close>

definition example_supervisor :: "mephisto_db \<Rightarrow> channel_info \<Rightarrow> supervisor" where
  "example_supervisor d ci =
     \<lparr>db = d, agents = Map.empty, agents_by_registration_id = Map.empty,
      channels = [''c1'' \<mapsto> ci], onboarding_packets = Map.empty, message_queue = [],
      agent_infos = (\<lambda>r. \<lparr>agent = example_agent '''' STATUS_NONE, used_channel_id = '''',
                           assignment_thread = None\<rparr>),
      next_ref = 0, trace = []\<rparr>"

fun example_tracking :: "agent list \<Rightarrow> supervisor \<Rightarrow> supervisor" where
  "example_tracking [] s = s"
| "example_tracking (a # others) s =
     example_tracking others
       (s\<lparr>agents := (agents s)(db_id a \<mapsto> next_ref s),
          agents_by_registration_id :=
            (agents_by_registration_id s)(PyStr (''reg-'' @ db_id a) \<mapsto> next_ref s),
          agent_infos := (agent_infos s)
            (next_ref s := \<lparr>agent = a, used_channel_id = ''c1'', assignment_thread = None\<rparr>),
          next_ref := Suc (next_ref s)\<rparr>)"

definition example_agent_state :: agent_state where
  "example_agent_state =
     \<lparr>valid = [STATUS_NONE, STATUS_ONBOARDING, STATUS_WAITING, STATUS_IN_TASK, STATUS_COMPLETED,
               STATUS_DISCONNECT, STATUS_TIMEOUT, STATUS_PARTNER_DISCONNECT, STATUS_EXPIRED],
      complete = [STATUS_COMPLETED, STATUS_DISCONNECT, STATUS_TIMEOUT, STATUS_EXPIRED]\<rparr>"

definition example_message :: "string \<Rightarrow> string \<Rightarrow> packet" where
  "example_message receiver text =
     \<lparr>packet_type = PACKET_TYPE_INIT_DATA, sender_id = ''mephisto'', receiver_id = receiver,
      data = [(''text'', PyStr text)]\<rparr>"


section \<open>Properties of the unit generator\<close>

declare reap_loop.simps [simp del] launch_loop.simps [simp del]





lemma mset_pop: "i < length xs \<Longrightarrow> add_mset (xs ! i) (mset (pop i xs)) = mset xs"
proof -
  assume a: "i < length xs"
  have "xs = take i xs @ (xs ! i) # drop (Suc i) xs"
    using a by (simp add: id_take_nth_drop)
  then have "mset xs = mset (take i xs @ (xs ! i) # drop (Suc i) xs)" by simp
  then show ?thesis by (simp add: pop_def)
qed

lemma reap_loop_frame:
  "max_num_concurrent_units (reap_loop st i n g) = max_num_concurrent_units g \<and>
   unlaunched_units (reap_loop st i n g) = unlaunched_units g \<and>
   yielded (reap_loop st i n g) = yielded g"
proof (induction st i n g rule: reap_loop.induct)
  case (1 st i n g)
  show ?case
    using "1.IH" by (subst (1 2 3) reap_loop.simps) (simp add: Let_def)
qed



lemma launch_loop_frame:
  "max_num_concurrent_units (launch_loop i n a g) = max_num_concurrent_units g"
proof (induction i n a g rule: launch_loop.induct)
  case (1 i n a g)
  show ?case
    using "1.IH" by (subst launch_loop.simps) (simp add: Let_def)
qed


lemma launch_loop_yields:
  "\<exists>ys. yielded (launch_loop i n a g) = yielded g @ ys \<and>
        launched_units (launch_loop i n a g) = launched_units g @ ys \<and>
        int (length ys) \<le> max 0 (a - int i) \<and>
        mset ys + mset (unlaunched_units (launch_loop i n a g)) = mset (unlaunched_units g)"
proof (induction i n a g rule: launch_loop.induct)
  case (1 i n a g)
  show ?case
  proof (cases "i < n \<and> int i < a \<and> i < length (unlaunched_units g)")
    case False
    then have "yielded (launch_loop i n a g) = yielded g @ [] \<and>
        launched_units (launch_loop i n a g) = launched_units g @ [] \<and>
        int (length ([]::unit_id list)) \<le> max 0 (a - int i) \<and>
        mset [] + mset (unlaunched_units (launch_loop i n a g)) = mset (unlaunched_units g)"
      by (subst (1 2 3) launch_loop.simps) auto
    then show ?thesis by blast
  next
    case True
    let ?u = "unlaunched_units g ! i"
    let ?g' = "g\<lparr>launched_units := launched_units g @ [?u],
                 unlaunched_units := pop i (unlaunched_units g),
                 yielded := yielded g @ [?u],
                 launched_history := launched_history g @ [launched_units g @ [?u]]\<rparr>"
    have step: "launch_loop i n a g = launch_loop (Suc i) n a ?g'"
      using True by (subst launch_loop.simps) (simp add: Let_def)
    obtain ys where ys: "yielded (launch_loop (Suc i) n a ?g') = yielded ?g' @ ys"
        "launched_units (launch_loop (Suc i) n a ?g') = launched_units ?g' @ ys"
        "int (length ys) \<le> max 0 (a - int (Suc i))"
        "mset ys + mset (unlaunched_units (launch_loop (Suc i) n a ?g')) = mset (unlaunched_units ?g')"
      using "1.IH" [of ?u] True by blast
    have m: "add_mset ?u (mset (pop i (unlaunched_units g))) = mset (unlaunched_units g)"
      using True by (simp add: mset_pop)
    have "yielded (launch_loop i n a g) = yielded g @ (?u # ys) \<and>
        launched_units (launch_loop i n a g) = launched_units g @ (?u # ys) \<and>
        int (length (?u # ys)) \<le> max 0 (a - int i) \<and>
        mset (?u # ys) + mset (unlaunched_units (launch_loop i n a g)) = mset (unlaunched_units g)"
      using ys True m unfolding step by auto
    then show ?thesis by blast
  qed
qed


lemma reap_pass_frame:
  "max_num_concurrent_units (reap_pass st g) = max_num_concurrent_units g \<and>
   unlaunched_units (reap_pass st g) = unlaunched_units g \<and>
   yielded (reap_pass st g) = yielded g"
  unfolding reap_pass_def by (rule reap_loop_frame)


lemma launch_pass_frame:
  "max_num_concurrent_units (launch_pass g) = max_num_concurrent_units g"
  unfolding launch_pass_def Let_def by (rule launch_loop_frame)


lemma launch_pass_yields:
  "\<exists>ys. yielded (launch_pass g) = yielded g @ ys \<and>
        launched_units (launch_pass g) = launched_units g @ ys \<and>
        int (length ys) \<le> max 0 (max_num_concurrent_units g - int (length (launched_units g))) \<and>
        mset ys + mset (unlaunched_units (launch_pass g)) = mset (unlaunched_units g)"
  unfolding launch_pass_def Let_def
  using launch_loop_yields [of 0 "length (unlaunched_units g)"
      "max_num_concurrent_units g - int (length (launched_units g))" g]
  by simp

lemma launch_pass_mset:
  "mset (yielded (launch_pass g)) + mset (unlaunched_units (launch_pass g)) =
   mset (yielded g) + mset (unlaunched_units g)"
proof -
  obtain ys where "yielded (launch_pass g) = yielded g @ ys"
    "mset ys + mset (unlaunched_units (launch_pass g)) = mset (unlaunched_units g)"
    using launch_pass_yields [of g] by blast
  then show ?thesis by (simp add: add.assoc)
qed

lemma generate_units_loop_frame:
  "max_num_concurrent_units (generate_units_loop passes g) = max_num_concurrent_units g"
proof (induction passes arbitrary: g)
  case Nil
  show ?case by simp
next
  case (Cons st passes)
  show ?case
    by (simp add: Let_def Cons.IH launch_pass_frame reap_pass_frame)
qed


lemma generate_units_loop_mset:
  "mset (yielded (generate_units_loop passes g)) +
     mset (unlaunched_units (generate_units_loop passes g)) =
   mset (yielded g) + mset (unlaunched_units g)"
proof (induction passes arbitrary: g)
  case Nil
  show ?case by simp
next
  case (Cons st passes)
  let ?g1 = "reap_pass st g"
  let ?g2 = "launch_pass ?g1"
  have e1: "mset (yielded ?g1) + mset (unlaunched_units ?g1) =
            mset (yielded g) + mset (unlaunched_units g)"
    by (simp add: reap_pass_frame)
  have e2: "mset (yielded ?g2) + mset (unlaunched_units ?g2) =
            mset (yielded g) + mset (unlaunched_units g)"
    using launch_pass_mset [of ?g1] e1 by simp
  have e3: "mset (yielded (generate_units_loop passes ?g2)) +
            mset (unlaunched_units (generate_units_loop passes ?g2)) =
            mset (yielded g) + mset (unlaunched_units g)"
    using Cons.IH [of ?g2] e2 by simp
  have r: "generate_units_loop (st # passes) g = ?g1 \<or>
           generate_units_loop (st # passes) g = ?g2 \<or>
           generate_units_loop (st # passes) g = ?g2\<lparr>returned := True\<rparr> \<or>
           generate_units_loop (st # passes) g = generate_units_loop passes ?g2"
    by (simp add: Let_def)
  then show ?case
  proof (elim disjE)
    assume "generate_units_loop (st # passes) g = ?g1"
    then show ?thesis using e1 by simp
  next
    assume "generate_units_loop (st # passes) g = ?g2"
    then show ?thesis using e2 by simp
  next
    assume "generate_units_loop (st # passes) g = ?g2\<lparr>returned := True\<rparr>"
    then show ?thesis using e2 by simp
  next
    assume "generate_units_loop (st # passes) g = generate_units_loop passes ?g2"
    then show ?thesis using e3 by simp
  qed
qed







text \<open>
  Claim C9. The reap pass does not remove every unit that has left the states LAUNCHED and
  ASSIGNED. With two launched units that have both finished, the pass pops the first,
  then reads index 1 of the list that now has one element: it raises IndexError, and the
  second finished unit is still in \<^verbatim>\<open>launched_units\<close>.
\<close>

theorem reap_pass_consecutive_finished_units:
  "reap_pass (\<lambda>u. OTHER_STATE ''completed'')
     \<lparr>max_num_concurrent_units = 2, launched_units = [''u1'', ''u2''], unlaunched_units = [],
      yielded = [], launched_history = [], raised = None, returned = False\<rparr> =
     \<lparr>max_num_concurrent_units = 2, launched_units = [''u2''], unlaunched_units = [],
      yielded = [], launched_history = [[''u2'']], raised = Some IndexError, returned = False\<rparr>"
  by (simp add: reap_pass_def reap_loop.simps pop_def Let_def)

text \<open>
  Claim C10. Over any execution, the units launched so far together with the units still in
  \<^verbatim>\<open>unlaunched_units\<close> are exactly the units that were in \<^verbatim>\<open>unlaunched_units\<close> at the
  start, counted with multiplicity. Every call is \<^verbatim>\<open>unit.launch(url)\<close> with the given url.
  So when the queued units are distinct, no unit is launched twice. In every launch pass,
  the units yielded are the units appended to \<^verbatim>\<open>launched_units\<close> and the units taken out of
  \<^verbatim>\<open>unlaunched_units\<close>.
\<close>

theorem units_launched_at_most_once:
  "mset (map fst (launch_limited_units url passes self)) +
     mset (unlaunched_units (generate_units passes self)) = mset (unlaunched_units self) \<and>
   (\<forall>call \<in> set (launch_limited_units url passes self). snd call = url) \<and>
   (distinct (unlaunched_units self) \<longrightarrow>
      distinct (map fst (launch_limited_units url passes self))) \<and>
   (\<forall>g. \<exists>ys. yielded (launch_pass g) = yielded g @ ys \<and>
            launched_units (launch_pass g) = launched_units g @ ys \<and>
            mset ys + mset (unlaunched_units (launch_pass g)) = mset (unlaunched_units g))"
proof -
  let ?G = "generate_units passes self"
  have fst: "map fst (launch_limited_units url passes self) = yielded ?G"
    by (simp add: launch_limited_units_def comp_def)
  have m: "mset (yielded ?G) + mset (unlaunched_units ?G) = mset (unlaunched_units self)"
    unfolding generate_units_def
    using generate_units_loop_mset [of passes] by simp
  have d: "distinct (yielded ?G)" if "distinct (unlaunched_units self)"
  proof -
    have "mset (yielded ?G @ unlaunched_units ?G) = mset (unlaunched_units self)"
      using m by simp
    then have "distinct (yielded ?G @ unlaunched_units ?G)"
      using that mset_eq_imp_distinct_iff by blast
    then show ?thesis by simp
  qed
  have u: "\<forall>call \<in> set (launch_limited_units url passes self). snd call = url"
    by (auto simp: launch_limited_units_def)
  have y: "\<forall>g. \<exists>ys. yielded (launch_pass g) = yielded g @ ys \<and>
            launched_units (launch_pass g) = launched_units g @ ys \<and>
            mset ys + mset (unlaunched_units (launch_pass g)) = mset (unlaunched_units g)"
    using launch_pass_yields by blast
  have "mset (yielded ?G) + mset (unlaunched_units ?G) = mset (unlaunched_units self) \<and>
   (\<forall>call \<in> set (launch_limited_units url passes self). snd call = url) \<and>
   (distinct (unlaunched_units self) \<longrightarrow> distinct (yielded ?G))"
    using m d u by blast
  then show ?thesis
    using y unfolding fst by (intro conjI) blast+
qed

theorem units_launched_at_most_once_witness:
  "distinct (unlaunched_units \<lparr>max_num_concurrent_units = 2, launched_units = [],
       unlaunched_units = [''a'', ''b'', ''c'']\<rparr>) \<and>
   launch_limited_units ''url'' [\<lambda>u. LAUNCHED, \<lambda>u. LAUNCHED]
     \<lparr>max_num_concurrent_units = 2, launched_units = [],
       unlaunched_units = [''a'', ''b'', ''c'']\<rparr> = [(''a'', ''url''), (''c'', ''url'')] \<and>
   distinct (map fst (launch_limited_units ''url'' [\<lambda>u. LAUNCHED, \<lambda>u. LAUNCHED]
     \<lparr>max_num_concurrent_units = 2, launched_units = [],
       unlaunched_units = [''a'', ''b'', ''c'']\<rparr>))"
proof -
  let ?self = "\<lparr>max_num_concurrent_units = 2, launched_units = [],
       unlaunched_units = [''a'', ''b'', ''c'']\<rparr>"
  have h: "distinct (unlaunched_units ?self)" by simp
  have e: "launch_limited_units ''url'' [\<lambda>u. LAUNCHED, \<lambda>u. LAUNCHED] ?self =
           [(''a'', ''url''), (''c'', ''url'')]"
    by (simp add: launch_limited_units_def generate_units_def reap_pass_def launch_pass_def
          reap_loop.simps launch_loop.simps pop_def Let_def)
  show ?thesis
    using units_launched_at_most_once [of "''url''" "[\<lambda>u. LAUNCHED, \<lambda>u. LAUNCHED]" ?self] h e
    by blast
qed

section \<open>Properties of the supervisor\<close>

text \<open>Definitions to unfold when a handler is run on concrete values.\<close>

lemmas example_defs =
  example_agent_def example_job_def example_channel_info_def example_db_def
  example_packet_def example_supervisor_def example_agent_state_def example_message_def
  example_locking_job_def


lemmas handler_defs =
  assign_unit_to_agent_def register_agent_def register_new_agent_def start_onboarding_def
  launch_tasks_def enqueue_provider_details_def provider_data_def getitem_def
  lookup_registration_def hashable_def
  get_agent_id_def get_status_def update_status_def SYSTEM_CHANNEL_ID_def Let_def



lemma log_event_simps [simp]:
  "db (log_event ev s) = db s"
  "agents (log_event ev s) = agents s"
  "agents_by_registration_id (log_event ev s) = agents_by_registration_id s"
  "channels (log_event ev s) = channels s"
  "onboarding_packets (log_event ev s) = onboarding_packets s"
  "message_queue (log_event ev s) = message_queue s"
  "agent_infos (log_event ev s) = agent_infos s"
  "next_ref (log_event ev s) = next_ref s"
  "trace (log_event ev s) = trace s @ [ev]"
  by (simp_all add: log_event_def)

lemma update_agent_info_simps [simp]:
  "db (update_agent_info r f s) = db s"
  "agents (update_agent_info r f s) = agents s"
  "agents_by_registration_id (update_agent_info r f s) = agents_by_registration_id s"
  "channels (update_agent_info r f s) = channels s"
  "onboarding_packets (update_agent_info r f s) = onboarding_packets s"
  "message_queue (update_agent_info r f s) = message_queue s"
  "agent_infos (update_agent_info r f s) = (agent_infos s)(r := f (agent_infos s r))"
  "next_ref (update_agent_info r f s) = next_ref s"
  "trace (update_agent_info r f s) = trace s"
  by (simp_all add: update_agent_info_def)

lemma update_agent_simps [simp]:
  "db (update_agent r g s) = db s"
  "agents (update_agent r g s) = agents s"
  "agents_by_registration_id (update_agent r g s) = agents_by_registration_id s"
  "channels (update_agent r g s) = channels s"
  "onboarding_packets (update_agent r g s) = onboarding_packets s"
  "message_queue (update_agent r g s) = message_queue s"
  "agent_infos (update_agent r g s) =
     (agent_infos s)(r := (agent_infos s r)\<lparr>agent := g (agent (agent_infos s r))\<rparr>)"
  "next_ref (update_agent r g s) = next_ref s"
  "trace (update_agent r g s) = trace s"
  by (simp_all add: update_agent_def)

lemma new_events_append [simp]: "trace s' = trace s @ evs \<Longrightarrow> new_events s s' = evs"
  by (simp add: new_events_def)

lemma new_events_same [simp]: "new_events s s = []"
  by (simp add: new_events_def)

text \<open>
  Claim C7. Every packet \<^verbatim>\<open>_send_status_update\<close> hands to a channel is an
  \<^verbatim>\<open>UPDATE_AGENT_STATUS\<close> packet whose status is the agent's current \<open>db_status\<close>, whose
  \<open>done_text\<close> is the entry of \<open>STATUS_TO_TEXT_MAP\<close> for that status (None when the map has
  none) and whose \<open>task_done\<close> is true exactly when the status is PARTNER_DISCONNECT. Every
  packet \<^verbatim>\<open>_mark_agent_done\<close> hands to a channel carries the status "completed", the
  manual-completion text and \<open>task_done\<close> true. When the agent's channel is registered,
  the first sends exactly one packet, and so does the second unless the agent is in
  \<^verbatim>\<open>complete()\<close> or PARTNER_DISCONNECT.
\<close>

theorem status_update_packet_contents:
  "(\<forall>p \<in> set (sent_packets (new_events s (state_of (send_status_update r s)))).
      packet_type p = PACKET_TYPE_UPDATE_AGENT_STATUS \<and>
      getitem (data p) ''status'' = Some (PyStatus (db_status (agent (agent_infos s r)))) \<and>
      state_item p ''done_text'' =
        Some (case STATUS_TO_TEXT_MAP (db_status (agent (agent_infos s r))) of
                None \<Rightarrow> PyNone | Some done_text \<Rightarrow> PyStr done_text) \<and>
      state_item p ''task_done'' =
        Some (PyBool (db_status (agent (agent_infos s r)) = STATUS_PARTNER_DISCONNECT))) \<and>
   (\<forall>p \<in> set (sent_packets (new_events s (state_of (mark_agent_done AgentState r s)))).
      packet_type p = PACKET_TYPE_UPDATE_AGENT_STATUS \<and>
      getitem (data p) ''status'' = Some (PyStr ''completed'') \<and>
      state_item p ''done_text'' = Some (PyStr ''You have completed this task. Please submit.'') \<and>
      state_item p ''task_done'' = Some (PyBool True)) \<and>
   (channels s (used_channel_id (agent_infos s r)) \<noteq> None \<longrightarrow>
      length (sent_packets (new_events s (state_of (send_status_update r s)))) = 1 \<and>
      (db_status (agent (agent_infos s r)) \<notin> set (complete AgentState @ [STATUS_PARTNER_DISCONNECT]) \<longrightarrow>
         length (sent_packets (new_events s (state_of (mark_agent_done AgentState r s)))) = 1))"
proof (intro conjI)
  show "\<forall>p \<in> set (sent_packets (new_events s (state_of (send_status_update r s)))).
      packet_type p = PACKET_TYPE_UPDATE_AGENT_STATUS \<and>
      getitem (data p) ''status'' = Some (PyStatus (db_status (agent (agent_infos s r)))) \<and>
      state_item p ''done_text'' =
        Some (case STATUS_TO_TEXT_MAP (db_status (agent (agent_infos s r))) of
                None \<Rightarrow> PyNone | Some done_text \<Rightarrow> PyStr done_text) \<and>
      state_item p ''task_done'' =
        Some (PyBool (db_status (agent (agent_infos s r)) = STATUS_PARTNER_DISCONNECT))"
    by (cases "channels s (used_channel_id (agent_infos s r))")
       (simp_all add: send_status_update_def Let_def state_item_def getitem_def)
  show "\<forall>p \<in> set (sent_packets (new_events s (state_of (mark_agent_done AgentState r s)))).
      packet_type p = PACKET_TYPE_UPDATE_AGENT_STATUS \<and>
      getitem (data p) ''status'' = Some (PyStr ''completed'') \<and>
      state_item p ''done_text'' = Some (PyStr ''You have completed this task. Please submit.'') \<and>
      state_item p ''task_done'' = Some (PyBool True)"
    by (cases "channels s (used_channel_id (agent_infos s r))")
       (simp_all add: mark_agent_done_def Let_def state_item_def getitem_def)
  show "channels s (used_channel_id (agent_infos s r)) \<noteq> None \<longrightarrow>
      length (sent_packets (new_events s (state_of (send_status_update r s)))) = 1 \<and>
      (db_status (agent (agent_infos s r)) \<notin> set (complete AgentState @ [STATUS_PARTNER_DISCONNECT]) \<longrightarrow>
         length (sent_packets (new_events s (state_of (mark_agent_done AgentState r s)))) = 1)"
    by (cases "channels s (used_channel_id (agent_infos s r))")
       (simp_all add: send_status_update_def mark_agent_done_def Let_def)
qed

text \<open>The theorem at a concrete input.\<close>

theorem status_update_packet_contents_witness:
  "channels
     (example_tracking [example_agent ''agent-u2'' STATUS_PARTNER_DISCONNECT]
        (example_supervisor (example_db []) (example_channel_info (example_job False False []))))
     (used_channel_id (agent_infos
        (example_tracking [example_agent ''agent-u2'' STATUS_PARTNER_DISCONNECT]
           (example_supervisor (example_db []) (example_channel_info (example_job False False []))))
        0)) \<noteq> None \<and>
   sent_packets (new_events
     (example_tracking [example_agent ''agent-u2'' STATUS_PARTNER_DISCONNECT]
        (example_supervisor (example_db []) (example_channel_info (example_job False False []))))
     (state_of (send_status_update 0
        (example_tracking [example_agent ''agent-u2'' STATUS_PARTNER_DISCONNECT]
           (example_supervisor (example_db []) (example_channel_info (example_job False False []))))))) =
     [\<lparr>packet_type = PACKET_TYPE_UPDATE_AGENT_STATUS, sender_id = ''mephisto'',
       receiver_id = ''agent-u2'',
       data = [(''status'', PyStatus STATUS_PARTNER_DISCONNECT),
               (''state'', PyDict
                  [(''done_text'', PyStr
                      ''One of your partners has disconnected while working on this task. We won't penalize you for them leaving, so please submit this task as is.''),
                   (''task_done'', PyBool True)])]\<rparr>] \<and>
   sent_packets (new_events
     (example_tracking [example_agent ''agent-u2'' STATUS_IN_TASK]
        (example_supervisor (example_db []) (example_channel_info (example_job False False []))))
     (state_of (mark_agent_done example_agent_state 0
        (example_tracking [example_agent ''agent-u2'' STATUS_IN_TASK]
           (example_supervisor (example_db []) (example_channel_info (example_job False False []))))))) =
     [\<lparr>packet_type = PACKET_TYPE_UPDATE_AGENT_STATUS, sender_id = ''mephisto'',
       receiver_id = ''agent-u2'',
       data = [(''status'', PyStr ''completed''),
               (''state'', PyDict
                  [(''done_text'', PyStr ''You have completed this task. Please submit.''),
                   (''task_done'', PyBool True)])]\<rparr>] \<and>
   length (sent_packets (new_events
     (example_tracking [example_agent ''agent-u2'' STATUS_PARTNER_DISCONNECT]
        (example_supervisor (example_db []) (example_channel_info (example_job False False []))))
     (state_of (send_status_update 0
        (example_tracking [example_agent ''agent-u2'' STATUS_PARTNER_DISCONNECT]
           (example_supervisor (example_db []) (example_channel_info (example_job False False [])))))))) =
     1"
proof -
  let ?s = "example_tracking [example_agent ''agent-u2'' STATUS_PARTNER_DISCONNECT]
        (example_supervisor (example_db []) (example_channel_info (example_job False False [])))"
  let ?t = "example_tracking [example_agent ''agent-u2'' STATUS_IN_TASK]
        (example_supervisor (example_db []) (example_channel_info (example_job False False [])))"
  have h: "channels ?s (used_channel_id (agent_infos ?s 0)) \<noteq> None"
    by (simp add: example_defs)
  have e1: "sent_packets (new_events ?s (state_of (send_status_update 0 ?s))) =
     [\<lparr>packet_type = PACKET_TYPE_UPDATE_AGENT_STATUS, sender_id = ''mephisto'',
       receiver_id = ''agent-u2'',
       data = [(''status'', PyStatus STATUS_PARTNER_DISCONNECT),
               (''state'', PyDict
                  [(''done_text'', PyStr
                      ''One of your partners has disconnected while working on this task. We won't penalize you for them leaving, so please submit this task as is.''),
                   (''task_done'', PyBool True)])]\<rparr>]"
    by (simp add: example_defs send_status_update_def STATUS_TO_TEXT_MAP_def handler_defs
          new_events_def)
  have e2: "sent_packets (new_events ?t (state_of (mark_agent_done example_agent_state 0 ?t))) =
     [\<lparr>packet_type = PACKET_TYPE_UPDATE_AGENT_STATUS, sender_id = ''mephisto'',
       receiver_id = ''agent-u2'',
       data = [(''status'', PyStr ''completed''),
               (''state'', PyDict
                  [(''done_text'', PyStr ''You have completed this task. Please submit.''),
                   (''task_done'', PyBool True)])]\<rparr>]"
    by (simp add: example_defs mark_agent_done_def handler_defs new_events_def)
  have c: "length (sent_packets (new_events ?s (state_of (send_status_update 0 ?s)))) = 1"
    using status_update_packet_contents [of ?s 0 example_agent_state] h by blast
  show ?thesis using h e1 e2 c by (intro conjI)
qed

declare send_observations_loop.simps [simp del] send_message_queue.simps [simp del]

lemma send_observations_loop_drains:
  "pending_observations (agent (agent_infos s r)) = q \<Longrightarrow>
   \<exists>n \<le> length q.
     pending_observations (agent (agent_infos (send_observations_loop r ci s) r)) = drop n q \<and>
     trace (send_observations_loop r ci s) =
       trace s @ map (\<lambda>p. Channel_send (channel_id ci) p True) (take n q) @
         (if n < length q then [Channel_send (channel_id ci) (q ! n) False] else [])"
proof (induction q arbitrary: s)
  case Nil
  then have "send_observations_loop r ci s = s"
    by (subst send_observations_loop.simps) simp
  then show ?case using Nil by simp
next
  case (Cons p q)
  let ?s1 = "update_agent r (\<lambda>a. a\<lparr>pending_observations := q\<rparr>) s"
  let ?ok = "channel ci p (trace ?s1)"
  let ?s2 = "log_event (Channel_send (channel_id ci) p ?ok) ?s1"
  show ?case
  proof (cases ?ok)
    case False
    have res: "send_observations_loop r ci s =
      update_agent r (\<lambda>a. a\<lparr>pending_observations := p # pending_observations a\<rparr>) ?s2"
      using Cons.prems False by (subst send_observations_loop.simps) (simp add: Let_def)
    have "pending_observations (agent (agent_infos (send_observations_loop r ci s) r)) =
            drop 0 (p # q) \<and>
          trace (send_observations_loop r ci s) =
            trace s @ map (\<lambda>p. Channel_send (channel_id ci) p True) (take 0 (p # q)) @
              (if 0 < length (p # q) then [Channel_send (channel_id ci) ((p # q) ! 0) False] else [])"
      using False unfolding res by simp
    then show ?thesis by blast
  next
    case True
    have res: "send_observations_loop r ci s = send_observations_loop r ci ?s2"
      using Cons.prems True by (subst send_observations_loop.simps) (simp add: Let_def)
    have "pending_observations (agent (agent_infos ?s2 r)) = q" by simp
    from Cons.IH [OF this] obtain n where n: "n \<le> length q"
      "pending_observations (agent (agent_infos (send_observations_loop r ci ?s2) r)) = drop n q"
      "trace (send_observations_loop r ci ?s2) =
         trace ?s2 @ map (\<lambda>p. Channel_send (channel_id ci) p True) (take n q) @
           (if n < length q then [Channel_send (channel_id ci) (q ! n) False] else [])"
      by blast
    have "Suc n \<le> length (p # q) \<and>
          pending_observations (agent (agent_infos (send_observations_loop r ci s) r)) =
            drop (Suc n) (p # q) \<and>
          trace (send_observations_loop r ci s) =
            trace s @ map (\<lambda>p. Channel_send (channel_id ci) p True) (take (Suc n) (p # q)) @
              (if Suc n < length (p # q)
               then [Channel_send (channel_id ci) ((p # q) ! Suc n) False] else [])"
      using n True unfolding res by simp
    then show ?thesis by blast
  qed
qed

lemma send_message_queue_drains:
  "message_queue s = q \<Longrightarrow>
   \<forall>p \<in> set q. channels s (receiver_id p) \<noteq> None \<Longrightarrow>
   \<exists>s' n. send_message_queue s = Returned s' \<and> n \<le> length q \<and>
     message_queue s' = drop n q \<and>
     trace s' =
       trace s @
       map (\<lambda>p. Channel_send (channel_id (the (channels s (receiver_id p)))) p True) (take n q) @
         (if n < length q
          then [Channel_send (channel_id (the (channels s (receiver_id (q ! n))))) (q ! n) False]
          else [])"
proof (induction q arbitrary: s)
  case Nil
  then have "send_message_queue s = Returned s"
    by (subst send_message_queue.simps) simp
  then show ?case using Nil by simp
next
  case (Cons p q)
  obtain ci where ci: "channels s (receiver_id p) = Some ci"
    using Cons.prems(2) by auto
  let ?s1 = "s\<lparr>message_queue := q\<rparr>"
  let ?ok = "channel ci p (trace ?s1)"
  let ?s2 = "log_event (Channel_send (channel_id ci) p ?ok) ?s1"
  show ?case
  proof (cases ?ok)
    case False
    have res: "send_message_queue s = Returned (?s2\<lparr>message_queue := p # message_queue ?s2\<rparr>)"
      using Cons.prems(1) ci False by (subst send_message_queue.simps) (simp add: Let_def)
    have "send_message_queue s = Returned (?s2\<lparr>message_queue := p # message_queue ?s2\<rparr>) \<and>
          0 \<le> length (p # q) \<and>
          message_queue (?s2\<lparr>message_queue := p # message_queue ?s2\<rparr>) = drop 0 (p # q) \<and>
          trace (?s2\<lparr>message_queue := p # message_queue ?s2\<rparr>) =
            trace s @
            map (\<lambda>p. Channel_send (channel_id (the (channels s (receiver_id p)))) p True)
              (take 0 (p # q)) @
            (if 0 < length (p # q)
             then [Channel_send (channel_id (the (channels s (receiver_id ((p # q) ! 0)))))
                     ((p # q) ! 0) False]
             else [])"
      using False ci res by simp
    then show ?thesis by blast
  next
    case True
    have res: "send_message_queue s = send_message_queue ?s2"
      using Cons.prems(1) ci True by (subst send_message_queue.simps) (simp add: Let_def)
    have q2: "message_queue ?s2 = q" by simp
    have c2: "\<forall>p \<in> set q. channels ?s2 (receiver_id p) \<noteq> None"
      using Cons.prems(2) by simp
    from Cons.IH [OF q2 c2] obtain s' n where n: "send_message_queue ?s2 = Returned s'"
      "n \<le> length q" "message_queue s' = drop n q"
      "trace s' =
         trace ?s2 @
         map (\<lambda>p. Channel_send (channel_id (the (channels ?s2 (receiver_id p)))) p True) (take n q) @
           (if n < length q
            then [Channel_send (channel_id (the (channels ?s2 (receiver_id (q ! n))))) (q ! n) False]
            else [])"
      by blast
    have "send_message_queue s = Returned s' \<and> Suc n \<le> length (p # q) \<and>
          message_queue s' = drop (Suc n) (p # q) \<and>
          trace s' =
            trace s @
            map (\<lambda>p. Channel_send (channel_id (the (channels s (receiver_id p)))) p True)
              (take (Suc n) (p # q)) @
            (if Suc n < length (p # q)
             then [Channel_send (channel_id (the (channels s (receiver_id ((p # q) ! Suc n)))))
                     ((p # q) ! Suc n) False]
             else [])"
      using n True ci unfolding res by simp
    then show ?thesis by blast
  qed
qed

text \<open>
  What the two drains do when their channel lookups succeed. Draining an agent's pending
  observations over its registered channel, and
  draining the system message queue when every receiver is a registered channel: some
  number \<open>n\<close> of packets from the front of the queue are sent successfully, in queue
  order; if packets remain, the next send was attempted on the packet at position \<open>n\<close> and
  failed, and nothing after it was attempted; the queue is left holding exactly the packets
  from position \<open>n\<close> on, in their original order.
\<close>

lemma queues_drain_in_fifo_order:
  "(channels s (used_channel_id (agent_infos s r)) = Some ci \<longrightarrow>
      (\<exists>s' n. try_send_agent_messages r s = Returned s' \<and>
         n \<le> length (pending_observations (agent (agent_infos s r))) \<and>
         pending_observations (agent (agent_infos s' r)) =
           drop n (pending_observations (agent (agent_infos s r))) \<and>
         new_events s s' =
           map (\<lambda>p. Channel_send (channel_id ci) p True)
             (take n (pending_observations (agent (agent_infos s r)))) @
           (if n < length (pending_observations (agent (agent_infos s r)))
            then [Channel_send (channel_id ci)
                    (pending_observations (agent (agent_infos s r)) ! n) False]
            else []))) \<and>
   ((\<forall>p \<in> set (message_queue s). channels s (receiver_id p) \<noteq> None) \<longrightarrow>
      (\<exists>s' n. send_message_queue s = Returned s' \<and>
         n \<le> length (message_queue s) \<and>
         message_queue s' = drop n (message_queue s) \<and>
         new_events s s' =
           map (\<lambda>p. Channel_send (channel_id (the (channels s (receiver_id p)))) p True)
             (take n (message_queue s)) @
           (if n < length (message_queue s)
            then [Channel_send (channel_id (the (channels s (receiver_id (message_queue s ! n)))))
                    (message_queue s ! n) False]
            else [])))"
proof (intro conjI impI)
  assume ci: "channels s (used_channel_id (agent_infos s r)) = Some ci"
  let ?q = "pending_observations (agent (agent_infos s r))"
  let ?s' = "send_observations_loop r ci s"
  have ret: "try_send_agent_messages r s = Returned ?s'"
    using ci by (simp add: try_send_agent_messages_def)
  obtain n where n: "n \<le> length ?q"
    "pending_observations (agent (agent_infos ?s' r)) = drop n ?q"
    "trace ?s' = trace s @ map (\<lambda>p. Channel_send (channel_id ci) p True) (take n ?q) @
         (if n < length ?q then [Channel_send (channel_id ci) (?q ! n) False] else [])"
    using send_observations_loop_drains [OF refl, where s = s and r = r and ci = ci] by blast
  have "new_events s ?s' = map (\<lambda>p. Channel_send (channel_id ci) p True) (take n ?q) @
         (if n < length ?q then [Channel_send (channel_id ci) (?q ! n) False] else [])"
    using n(3) by (rule new_events_append)
  then show "\<exists>s' n. try_send_agent_messages r s = Returned s' \<and>
         n \<le> length ?q \<and>
         pending_observations (agent (agent_infos s' r)) = drop n ?q \<and>
         new_events s s' =
           map (\<lambda>p. Channel_send (channel_id ci) p True) (take n ?q) @
           (if n < length ?q then [Channel_send (channel_id ci) (?q ! n) False] else [])"
    using ret n(1,2) by blast
next
  assume ch: "\<forall>p \<in> set (message_queue s). channels s (receiver_id p) \<noteq> None"
  let ?q = "message_queue s"
  obtain s' n where n: "send_message_queue s = Returned s'" "n \<le> length ?q"
    "message_queue s' = drop n ?q"
    "trace s' =
       trace s @
       map (\<lambda>p. Channel_send (channel_id (the (channels s (receiver_id p)))) p True) (take n ?q) @
         (if n < length ?q
          then [Channel_send (channel_id (the (channels s (receiver_id (?q ! n))))) (?q ! n) False]
          else [])"
    using send_message_queue_drains [OF refl ch] by blast
  have "new_events s s' =
       map (\<lambda>p. Channel_send (channel_id (the (channels s (receiver_id p)))) p True) (take n ?q) @
         (if n < length ?q
          then [Channel_send (channel_id (the (channels s (receiver_id (?q ! n))))) (?q ! n) False]
          else [])"
    using n(4) by (rule new_events_append)
  then show "\<exists>s' n. send_message_queue s = Returned s' \<and>
         n \<le> length ?q \<and>
         message_queue s' = drop n ?q \<and>
         new_events s s' =
           map (\<lambda>p. Channel_send (channel_id (the (channels s (receiver_id p)))) p True)
             (take n ?q) @
           (if n < length ?q
            then [Channel_send (channel_id (the (channels s (receiver_id (?q ! n))))) (?q ! n) False]
            else [])"
    using n(1,2,3) by blast
qed

text \<open>The theorem at a concrete input.\<close>

lemma queues_drain_in_fifo_order_example:
  "channels
     (example_tracking
        [(example_agent ''agent-u2'' STATUS_IN_TASK)
           \<lparr>pending_observations :=
              [example_message ''agent-u2'' ''one'', example_message ''agent-u2'' ''two'',
               example_message ''agent-u2'' ''three'']\<rparr>]
        (example_supervisor (example_db []) (example_channel_info (example_job False False []))))
     (used_channel_id (agent_infos
        (example_tracking
           [(example_agent ''agent-u2'' STATUS_IN_TASK)
              \<lparr>pending_observations :=
                 [example_message ''agent-u2'' ''one'', example_message ''agent-u2'' ''two'',
                  example_message ''agent-u2'' ''three'']\<rparr>]
           (example_supervisor (example_db []) (example_channel_info (example_job False False []))))
        0)) = Some (example_channel_info (example_job False False [])) \<and>
   new_events
     (example_tracking
        [(example_agent ''agent-u2'' STATUS_IN_TASK)
           \<lparr>pending_observations :=
              [example_message ''agent-u2'' ''one'', example_message ''agent-u2'' ''two'',
               example_message ''agent-u2'' ''three'']\<rparr>]
        (example_supervisor (example_db []) (example_channel_info (example_job False False []))))
     (state_of (try_send_agent_messages 0
        (example_tracking
           [(example_agent ''agent-u2'' STATUS_IN_TASK)
              \<lparr>pending_observations :=
                 [example_message ''agent-u2'' ''one'', example_message ''agent-u2'' ''two'',
                  example_message ''agent-u2'' ''three'']\<rparr>]
           (example_supervisor (example_db []) (example_channel_info (example_job False False [])))))) =
     [Channel_send ''c1'' (example_message ''agent-u2'' ''one'') True,
      Channel_send ''c1'' (example_message ''agent-u2'' ''two'') True,
      Channel_send ''c1'' (example_message ''agent-u2'' ''three'') False] \<and>
   pending_observations (agent (agent_infos
     (state_of (try_send_agent_messages 0
        (example_tracking
           [(example_agent ''agent-u2'' STATUS_IN_TASK)
              \<lparr>pending_observations :=
                 [example_message ''agent-u2'' ''one'', example_message ''agent-u2'' ''two'',
                  example_message ''agent-u2'' ''three'']\<rparr>]
           (example_supervisor (example_db []) (example_channel_info (example_job False False []))))))
     0)) = [example_message ''agent-u2'' ''three''] \<and>
   message_queue (state_of (send_message_queue
     ((example_supervisor (example_db []) (example_channel_info (example_job False False [])))
        \<lparr>message_queue := [example_message ''c1'' ''one'', example_message ''c1'' ''two'',
                           example_message ''c1'' ''three'']\<rparr>))) =
     [example_message ''c1'' ''three''] \<and>
   (\<exists>s' n. send_message_queue
     ((example_supervisor (example_db []) (example_channel_info (example_job False False [])))
        \<lparr>message_queue := [example_message ''c1'' ''one'', example_message ''c1'' ''two'',
                           example_message ''c1'' ''three'']\<rparr>) = Returned s' \<and>
      message_queue s' =
        drop n [example_message ''c1'' ''one'', example_message ''c1'' ''two'',
                example_message ''c1'' ''three'']) \<and>
   (\<exists>s' n. try_send_agent_messages 0
        (example_tracking
           [(example_agent ''agent-u2'' STATUS_IN_TASK)
              \<lparr>pending_observations :=
                 [example_message ''agent-u2'' ''one'', example_message ''agent-u2'' ''two'',
                  example_message ''agent-u2'' ''three'']\<rparr>]
           (example_supervisor (example_db []) (example_channel_info (example_job False False [])))) =
        Returned s' \<and>
      pending_observations (agent (agent_infos s' 0)) =
        drop n [example_message ''agent-u2'' ''one'', example_message ''agent-u2'' ''two'',
                example_message ''agent-u2'' ''three''])"
proof -
  let ?ci = "example_channel_info (example_job False False [])"
  let ?q = "[example_message ''agent-u2'' ''one'', example_message ''agent-u2'' ''two'',
               example_message ''agent-u2'' ''three'']"
  let ?s = "example_tracking
        [(example_agent ''agent-u2'' STATUS_IN_TASK)\<lparr>pending_observations := ?q\<rparr>]
        (example_supervisor (example_db []) ?ci)"
  let ?m = "[example_message ''c1'' ''one'', example_message ''c1'' ''two'',
             example_message ''c1'' ''three'']"
  let ?t = "(example_supervisor (example_db []) ?ci)\<lparr>message_queue := ?m\<rparr>"
  have h1: "channels ?s (used_channel_id (agent_infos ?s 0)) = Some ?ci"
    by (simp add: example_supervisor_def example_agent_def)
  have q: "pending_observations (agent (agent_infos ?s 0)) = ?q"
    by (simp add: example_supervisor_def example_agent_def)
  have h2: "\<forall>p \<in> set (message_queue ?t). channels ?t (receiver_id p) \<noteq> None"
    by (simp add: example_supervisor_def example_message_def)
  have mq: "message_queue ?t = ?m" by simp
  have e1: "new_events ?s (state_of (try_send_agent_messages 0 ?s)) =
     [Channel_send ''c1'' (example_message ''agent-u2'' ''one'') True,
      Channel_send ''c1'' (example_message ''agent-u2'' ''two'') True,
      Channel_send ''c1'' (example_message ''agent-u2'' ''three'') False]"
    by (simp add: example_supervisor_def example_agent_def example_channel_info_def
          try_send_agent_messages_def send_observations_loop.simps Let_def new_events_def)
  have e2: "pending_observations (agent (agent_infos (state_of (try_send_agent_messages 0 ?s)) 0)) =
     [example_message ''agent-u2'' ''three'']"
    by (simp add: example_supervisor_def example_agent_def example_channel_info_def
          try_send_agent_messages_def send_observations_loop.simps Let_def)
  have e3: "message_queue (state_of (send_message_queue ?t)) = [example_message ''c1'' ''three'']"
    by (simp add: example_supervisor_def example_message_def example_channel_info_def
          send_message_queue.simps Let_def)
  note inst = queues_drain_in_fifo_order [of ?s 0 ?ci]
  note inst2 = queues_drain_in_fifo_order [of ?t 0 ?ci]
  have c1: "\<exists>s' n. send_message_queue ?t = Returned s' \<and> message_queue s' = drop n ?m"
    using inst2 h2 unfolding mq by blast
  have c2: "\<exists>s' n. try_send_agent_messages 0 ?s = Returned s' \<and>
      pending_observations (agent (agent_infos s' 0)) = drop n ?q"
    using inst h1 unfolding q by blast
  show ?thesis using h1 e1 e2 e3 c1 c2 by (intro conjI)
qed

text \<open>
  Claim C8 fails for the system message queue. \<^verbatim>\<open>_send_message_queue\<close> pops a packet before
  it looks its channel up, so when the receiver is no registered channel (the channel was
  closed while the reply waited) the lookup raises KeyError and the packet, neither sent nor
  put back, is lost: the queue is left without it. \<^verbatim>\<open>_try_send_agent_messages\<close> looks the
  channel up before it pops anything, and leaves the queue as it was.
\<close>

theorem send_message_queue_loses_packet:
  "(case send_message_queue
       ((example_supervisor (example_db []) (example_channel_info (example_job False False [])))
          \<lparr>message_queue := [example_message ''c1'' ''one'', example_message ''c2'' ''two'',
                             example_message ''c1'' ''three'']\<rparr>) of
      Returned s' \<Rightarrow> False
    | Raised e s' \<Rightarrow>
        e = KeyError ''c2'' \<and>
        message_queue s' = [example_message ''c1'' ''three''] \<and>
        trace s' = [Channel_send ''c1'' (example_message ''c1'' ''one'') True]) \<and>
   (case try_send_agent_messages 0
       (update_agent_info 0 (\<lambda>info. info\<lparr>used_channel_id := ''c2''\<rparr>)
          (example_tracking
             [(example_agent ''agent-u2'' STATUS_IN_TASK)
                \<lparr>pending_observations := [example_message ''agent-u2'' ''one'']\<rparr>]
             (example_supervisor (example_db [])
                (example_channel_info (example_job False False []))))) of
      Returned s' \<Rightarrow> False
    | Raised e s' \<Rightarrow>
        e = KeyError ''c2'' \<and>
        pending_observations (agent (agent_infos s' 0)) = [example_message ''agent-u2'' ''one''] \<and>
        trace s' = [])"
  by (simp add: example_supervisor_def example_message_def example_channel_info_def
        example_agent_def send_message_queue.simps try_send_agent_messages_def Let_def)

lemma send_status_update_keeps_agents:
  "agent_infos (state_of (send_status_update r s)) = agent_infos s"
  by (cases "channels s (used_channel_id (agent_infos s r))")
     (simp_all add: send_status_update_def Let_def)

lemma handle_status_entry_effect:
  "agent_infos (state_of (handle_status_entry AgentState entry s)) r0 = agent_infos s r0 \<or>
   db_status (agent (agent_infos s r0)) \<notin> set (complete AgentState) \<and>
   db_status (agent (agent_infos (state_of (handle_status_entry AgentState entry s)) r0))
     \<noteq> STATUS_COMPLETED"
proof (cases "agents s (fst entry)")
  case None
  then show ?thesis by (simp add: handle_status_entry_def Let_def)
next
  case (Some r)
  show ?thesis
  proof (cases "snd entry = STATUS_NONE")
    case True
    then show ?thesis
      using Some send_status_update_keeps_agents [of r s]
      by (simp add: handle_status_entry_def Let_def)
  next
    case False
    then show ?thesis
      using Some
      by (simp add: handle_status_entry_def Let_def get_status_def update_status_def)
  qed
qed

lemma handle_updated_agent_status_effect:
  "(db_status (agent (agent_infos s r0)) \<in> set (complete AgentState) \<longrightarrow>
      agent_infos (state_of (handle_updated_agent_status AgentState status_map s)) r0 =
        agent_infos s r0) \<and>
   (db_status (agent (agent_infos (state_of (handle_updated_agent_status AgentState status_map s)) r0))
      = STATUS_COMPLETED \<longrightarrow>
    db_status (agent (agent_infos s r0)) = STATUS_COMPLETED)"
proof (induction status_map arbitrary: s)
  case Nil
  show ?case by simp
next
  case (Cons entry status_map)
  let ?o1 = "handle_status_entry AgentState entry s"
  let ?s1 = "state_of ?o1"
  have step: "agent_infos ?s1 r0 = agent_infos s r0 \<or>
     db_status (agent (agent_infos s r0)) \<notin> set (complete AgentState) \<and>
     db_status (agent (agent_infos ?s1 r0)) \<noteq> STATUS_COMPLETED"
    by (rule handle_status_entry_effect)
  show ?case
  proof (cases ?o1)
    case (Raised e s1)
    then have "state_of (handle_updated_agent_status AgentState (entry # status_map) s) = ?s1"
      by simp
    then show ?thesis using step by auto
  next
    case (Returned s1)
    then have "state_of (handle_updated_agent_status AgentState (entry # status_map) s) =
               state_of (handle_updated_agent_status AgentState status_map ?s1)"
      by simp
    then show ?thesis using step Cons.IH [of ?s1] by auto
  qed
qed

text \<open>
  Claim C4. For any status map, \<^verbatim>\<open>_handle_updated_agent_status\<close> leaves every agent whose
  local status is in \<^verbatim>\<open>complete()\<close> untouched, and no agent ends with status COMPLETED
  that did not have it before. For a single entry whose agent is tracked, is in
  \<^verbatim>\<open>complete()\<close> and is reported with a different status, no agent is changed, and unless
  the report is NONE (which makes the handler send a status update) the whole state is left
  as it was.
\<close>

theorem status_reports_keep_terminal_agents:
  "(\<forall>r. db_status (agent (agent_infos s r)) \<in> set (complete AgentState) \<longrightarrow>
        agent_infos (state_of (handle_updated_agent_status AgentState status_map s)) r =
          agent_infos s r) \<and>
   (\<forall>r. db_status (agent (agent_infos
            (state_of (handle_updated_agent_status AgentState status_map s)) r)) = STATUS_COMPLETED \<longrightarrow>
        db_status (agent (agent_infos s r)) = STATUS_COMPLETED) \<and>
   (\<forall>agent_id status r.
      agents s agent_id = Some r \<and>
      db_status (agent (agent_infos s r)) \<in> set (complete AgentState) \<and>
      status \<noteq> db_status (agent (agent_infos s r)) \<longrightarrow>
        agent_infos (state_of (handle_status_entry AgentState (agent_id, status) s)) =
          agent_infos s \<and>
        (status \<noteq> STATUS_NONE \<longrightarrow>
           handle_status_entry AgentState (agent_id, status) s = Returned s))"
proof (intro conjI allI impI)
  fix r assume "db_status (agent (agent_infos s r)) \<in> set (complete AgentState)"
  then show "agent_infos (state_of (handle_updated_agent_status AgentState status_map s)) r =
          agent_infos s r"
    using handle_updated_agent_status_effect [of s r AgentState status_map] by blast
next
  fix r assume "db_status (agent (agent_infos
            (state_of (handle_updated_agent_status AgentState status_map s)) r)) = STATUS_COMPLETED"
  then show "db_status (agent (agent_infos s r)) = STATUS_COMPLETED"
    using handle_updated_agent_status_effect [of s r AgentState status_map] by blast
next
  fix agent_id status r
  assume a: "agents s agent_id = Some r \<and>
      db_status (agent (agent_infos s r)) \<in> set (complete AgentState) \<and>
      status \<noteq> db_status (agent (agent_infos s r))"
  show "agent_infos (state_of (handle_status_entry AgentState (agent_id, status) s)) =
          agent_infos s"
    using a send_status_update_keeps_agents [of r s]
    by (simp add: handle_status_entry_def Let_def get_status_def)
next
  fix agent_id status r
  assume a: "agents s agent_id = Some r \<and>
      db_status (agent (agent_infos s r)) \<in> set (complete AgentState) \<and>
      status \<noteq> db_status (agent (agent_infos s r))"
    and n: "status \<noteq> STATUS_NONE"
  show "handle_status_entry AgentState (agent_id, status) s = Returned s"
    using a n by (simp add: handle_status_entry_def Let_def get_status_def)
qed

text \<open>The theorem at a concrete input.\<close>

theorem status_reports_keep_terminal_agents_witness:
  "agents (example_tracking [example_agent ''agent-u2'' STATUS_COMPLETED]
      (example_supervisor (example_db []) (example_channel_info (example_job False False []))))
     ''agent-u2'' = Some 0 \<and>
   db_status (agent (agent_infos
     (example_tracking [example_agent ''agent-u2'' STATUS_COMPLETED]
        (example_supervisor (example_db []) (example_channel_info (example_job False False []))))
     0)) = STATUS_COMPLETED \<and>
   STATUS_COMPLETED \<in> set (complete example_agent_state) \<and>
   handle_status_entry example_agent_state (''agent-u2'', STATUS_IN_TASK)
     (example_tracking [example_agent ''agent-u2'' STATUS_COMPLETED]
        (example_supervisor (example_db []) (example_channel_info (example_job False False [])))) =
     Returned
       (example_tracking [example_agent ''agent-u2'' STATUS_COMPLETED]
          (example_supervisor (example_db []) (example_channel_info (example_job False False [])))) \<and>
   agent_infos (state_of (handle_updated_agent_status example_agent_state
       [(''agent-u2'', STATUS_IN_TASK), (''agent-u2'', STATUS_DISCONNECT)]
       (example_tracking [example_agent ''agent-u2'' STATUS_COMPLETED]
          (example_supervisor (example_db []) (example_channel_info (example_job False False []))))))
     0 =
     agent_infos
       (example_tracking [example_agent ''agent-u2'' STATUS_COMPLETED]
          (example_supervisor (example_db []) (example_channel_info (example_job False False []))))
       0 \<and>
   db_status (agent (agent_infos (state_of (handle_updated_agent_status example_agent_state
       [(''agent-u2'', STATUS_COMPLETED), (''agent-u2'', STATUS_DISCONNECT)]
       (example_tracking [example_agent ''agent-u2'' STATUS_IN_TASK]
          (example_supervisor (example_db []) (example_channel_info (example_job False False []))))))
     0)) = STATUS_DISCONNECT"
proof -
  let ?s = "example_tracking [example_agent ''agent-u2'' STATUS_COMPLETED]
      (example_supervisor (example_db []) (example_channel_info (example_job False False [])))"
  let ?t = "example_tracking [example_agent ''agent-u2'' STATUS_IN_TASK]
      (example_supervisor (example_db []) (example_channel_info (example_job False False [])))"
  have h1: "agents ?s ''agent-u2'' = Some 0" by (simp add: example_defs)
  have h2: "db_status (agent (agent_infos ?s 0)) = STATUS_COMPLETED" by (simp add: example_defs)
  have h3: "STATUS_COMPLETED \<in> set (complete example_agent_state)" by (simp add: example_defs)
  have h4: "db_status (agent (agent_infos ?s 0)) \<in> set (complete example_agent_state)"
    using h2 h3 by simp
  have h5: "STATUS_IN_TASK \<noteq> db_status (agent (agent_infos ?s 0))" using h2 by simp
  note inst = status_reports_keep_terminal_agents
    [of ?s example_agent_state "[(''agent-u2'', STATUS_IN_TASK), (''agent-u2'', STATUS_DISCONNECT)]"]
  have c1: "handle_status_entry example_agent_state (''agent-u2'', STATUS_IN_TASK) ?s = Returned ?s"
    using inst h1 h4 h5 by blast
  have c2: "agent_infos (state_of (handle_updated_agent_status example_agent_state
       [(''agent-u2'', STATUS_IN_TASK), (''agent-u2'', STATUS_DISCONNECT)] ?s)) 0 =
     agent_infos ?s 0"
    using inst h4 by blast
  have e: "db_status (agent (agent_infos (state_of (handle_updated_agent_status example_agent_state
       [(''agent-u2'', STATUS_COMPLETED), (''agent-u2'', STATUS_DISCONNECT)] ?t)) 0)) =
     STATUS_DISCONNECT"
    by (simp add: example_defs handle_status_entry_def handler_defs)
  show ?thesis using h1 h2 h3 c1 c2 e by (intro conjI)
qed

lemma fold_in_task:
  "db (fold (\<lambda>r' s'. update_agent_info r' (\<lambda>info. info\<lparr>assignment_thread := Some t\<rparr>)
              (update_agent r' (update_status STATUS_IN_TASK) s')) refs s) = db s \<and>
   agents (fold (\<lambda>r' s'. update_agent_info r' (\<lambda>info. info\<lparr>assignment_thread := Some t\<rparr>)
              (update_agent r' (update_status STATUS_IN_TASK) s')) refs s) = agents s \<and>
   agents_by_registration_id
     (fold (\<lambda>r' s'. update_agent_info r' (\<lambda>info. info\<lparr>assignment_thread := Some t\<rparr>)
              (update_agent r' (update_status STATUS_IN_TASK) s')) refs s) =
     agents_by_registration_id s \<and>
   channels (fold (\<lambda>r' s'. update_agent_info r' (\<lambda>info. info\<lparr>assignment_thread := Some t\<rparr>)
              (update_agent r' (update_status STATUS_IN_TASK) s')) refs s) = channels s \<and>
   onboarding_packets
     (fold (\<lambda>r' s'. update_agent_info r' (\<lambda>info. info\<lparr>assignment_thread := Some t\<rparr>)
              (update_agent r' (update_status STATUS_IN_TASK) s')) refs s) = onboarding_packets s \<and>
   message_queue (fold (\<lambda>r' s'. update_agent_info r' (\<lambda>info. info\<lparr>assignment_thread := Some t\<rparr>)
              (update_agent r' (update_status STATUS_IN_TASK) s')) refs s) = message_queue s \<and>
   next_ref (fold (\<lambda>r' s'. update_agent_info r' (\<lambda>info. info\<lparr>assignment_thread := Some t\<rparr>)
              (update_agent r' (update_status STATUS_IN_TASK) s')) refs s) = next_ref s \<and>
   trace (fold (\<lambda>r' s'. update_agent_info r' (\<lambda>info. info\<lparr>assignment_thread := Some t\<rparr>)
              (update_agent r' (update_status STATUS_IN_TASK) s')) refs s) = trace s \<and>
   agent_infos (fold (\<lambda>r' s'. update_agent_info r' (\<lambda>info. info\<lparr>assignment_thread := Some t\<rparr>)
              (update_agent r' (update_status STATUS_IN_TASK) s')) refs s) r0 =
     (if r0 \<in> set refs
      then (agent_infos s r0)\<lparr>agent := update_status STATUS_IN_TASK (agent (agent_infos s r0)),
                               assignment_thread := Some t\<rparr>
      else agent_infos s r0)"
proof (induction refs arbitrary: s)
  case Nil
  show ?case by simp
next
  case (Cons r refs)
  show ?case
    unfolding fold_simps
    by (simp only: Cons.IH) (simp add: update_status_def)
qed


lemma launch_tasks_frame:
  "db (state_of (launch_tasks ci unit r s)) = db s \<and>
   agents (state_of (launch_tasks ci unit r s)) = agents s \<and>
   agents_by_registration_id (state_of (launch_tasks ci unit r s)) = agents_by_registration_id s \<and>
   channels (state_of (launch_tasks ci unit r s)) = channels s \<and>
   onboarding_packets (state_of (launch_tasks ci unit r s)) = onboarding_packets s \<and>
   message_queue (state_of (launch_tasks ci unit r s)) = message_queue s \<and>
   next_ref (state_of (launch_tasks ci unit r s)) = next_ref s \<and>
   db_id (agent (agent_infos (state_of (launch_tasks ci unit r s)) r0)) =
     db_id (agent (agent_infos s r0)) \<and>
   used_channel_id (agent_infos (state_of (launch_tasks ci unit r s)) r0) =
     used_channel_id (agent_infos s r0) \<and>
   (\<exists>rest. trace (state_of (launch_tasks ci unit r s)) = trace s @ rest \<and>
           length rest \<le> 1 \<and> (\<forall>ev \<in> set rest. \<exists>t. ev = Thread_start t))"
proof (cases "is_concurrent (task_runner (job ci))")
  case False
  then show ?thesis by (simp add: launch_tasks_def Let_def)
next
  case conc: True
  let ?A = "get_agents (db s) (get_assignment (db s) unit (trace s)) (trace s)"
  show ?thesis
  proof (cases "None \<in> set ?A")
    case True
    then show ?thesis using conc by (simp add: launch_tasks_def Let_def update_status_def)
  next
    case nn: False
    show ?thesis
    proof (cases "agent_infos_for (agents s) ?A")
      case (Inl e)
      then show ?thesis using conc nn by (simp add: launch_tasks_def Let_def)
    next
      case (Inr refs)
      then show ?thesis using conc nn
        by (simp add: launch_tasks_def Let_def fold_in_task update_status_def)
    qed
  qed
qed



lemma reserve_loop_frame:
  "reserve_loop tr units s = (res, s1) \<Longrightarrow> s1 = s\<lparr>trace := trace s1\<rparr>"
proof (induction units arbitrary: s)
  case Nil
  then show ?case by simp
next
  case (Cons u units)
  show ?case
  proof (cases "reserve_unit tr u (trace s)")
    case None
    then have "reserve_loop tr units (log_event (Reserve_unit u None) s) = (res, s1)"
      using Cons.prems by (simp add: Let_def)
    from Cons.IH [OF this] show ?thesis by (simp add: log_event_def)
  next
    case (Some reserved)
    then have "s1 = log_event (Reserve_unit u (Some reserved)) s"
      using Cons.prems by (simp add: Let_def)
    then show ?thesis by (simp add: log_event_def)
  qed
qed

lemma reserve_loop_none:
  "reserve_loop tr units s = (None, s1) \<Longrightarrow>
   trace s1 = trace s @ map (\<lambda>u. Reserve_unit u None) units"
proof (induction units arbitrary: s)
  case Nil
  then show ?case by simp
next
  case (Cons u units)
  show ?case
  proof (cases "reserve_unit tr u (trace s)")
    case None
    then have "reserve_loop tr units (log_event (Reserve_unit u None) s) = (None, s1)"
      using Cons.prems by (simp add: Let_def)
    from Cons.IH [OF this] show ?thesis by simp
  next
    case (Some reserved)
    then show ?thesis using Cons.prems by (simp add: Let_def)
  qed
qed

lemma reserve_loop_some:
  "reserve_loop tr units s = (Some (unit, reserved), s1) \<Longrightarrow>
   \<exists>k < length units. unit = units ! k \<and>
     trace s1 = trace s @ map (\<lambda>u. Reserve_unit u None) (take k units) @
                  [Reserve_unit unit (Some reserved)]"
proof (induction units arbitrary: s)
  case Nil
  then show ?case by simp
next
  case (Cons u units)
  show ?case
  proof (cases "reserve_unit tr u (trace s)")
    case None
    then have "reserve_loop tr units (log_event (Reserve_unit u None) s) =
               (Some (unit, reserved), s1)"
      using Cons.prems by (simp add: Let_def)
    from Cons.IH [OF this] obtain k where k: "k < length units" "unit = units ! k"
      "trace s1 = trace (log_event (Reserve_unit u None) s) @
         map (\<lambda>u. Reserve_unit u None) (take k units) @ [Reserve_unit unit (Some reserved)]"
      by blast
    have "Suc k < length (u # units) \<and> unit = (u # units) ! Suc k \<and>
          trace s1 = trace s @ map (\<lambda>u. Reserve_unit u None) (take (Suc k) (u # units)) @
                  [Reserve_unit unit (Some reserved)]"
      using k by simp
    then show ?thesis by blast
  next
    case (Some reserved')
    then have "unit = u \<and> reserved' = reserved \<and> s1 = log_event (Reserve_unit u (Some reserved')) s"
      using Cons.prems by (auto simp: Let_def)
    then have "0 < length (u # units) \<and> unit = (u # units) ! 0 \<and>
          trace s1 = trace s @ map (\<lambda>u. Reserve_unit u None) (take 0 (u # units)) @
                  [Reserve_unit unit (Some reserved)]"
      by simp
    then show ?thesis by blast
  qed
qed

lemma reserve_loop_fields:
  assumes "reserve_loop tr units s = (res, s1)"
  shows "db s1 = db s" "agents s1 = agents s"
    "agents_by_registration_id s1 = agents_by_registration_id s"
    "channels s1 = channels s" "onboarding_packets s1 = onboarding_packets s"
    "message_queue s1 = message_queue s" "agent_infos s1 = agent_infos s"
    "next_ref s1 = next_ref s"
proof -
  have e: "s1 = s\<lparr>trace := trace s1\<rparr>" using assms by (rule reserve_loop_frame)
  show "db s1 = db s" by (subst e) simp
  show "agents s1 = agents s" by (subst e) simp
  show "agents_by_registration_id s1 = agents_by_registration_id s" by (subst e) simp
  show "channels s1 = channels s" by (subst e) simp
  show "onboarding_packets s1 = onboarding_packets s" by (subst e) simp
  show "message_queue s1 = message_queue s" by (subst e) simp
  show "agent_infos s1 = agent_infos s" by (subst e) simp
  show "next_ref s1 = next_ref s" by (subst e) simp
qed

lemma assign_unit_to_agent_none:
  assumes "provider_data packet = Inr crowd_data"
    and "getitem crowd_data ''worker_id'' = Some worker_id"
    and "getitem (data packet) ''request_id'' = Some request_id"
    and "reserve_loop (task_run (task_runner (job ci))) units s = (None, s1)"
  shows "assign_unit_to_agent packet ci units s =
     Returned (s1\<lparr>message_queue := message_queue s1 @
       [\<lparr>packet_type = PACKET_TYPE_PROVIDER_DETAILS, sender_id = SYSTEM_CHANNEL_ID,
         receiver_id = channel_id ci,
         data = [(''request_id'', request_id), (''agent_id'', PyNone)]\<rparr>]\<rparr>)"
  using assms by (simp add: assign_unit_to_agent_def enqueue_provider_details_def)

lemma created_agents_append:
  "created_agents (xs @ ys) = created_agents xs @ created_agents ys"
  by (induction xs rule: created_agents.induct) simp_all

lemma created_agents_failed_reserves:
  "created_agents (map (\<lambda>u. Reserve_unit u None) units) = []"
  by (induction units) simp_all

lemma created_agents_thread_starts:
  "\<forall>ev \<in> set rest. \<exists>t. ev = Thread_start t \<Longrightarrow> created_agents rest = []"
  by (induction rest) auto

lemma assign_unit_to_agent_some:
  assumes "provider_data packet = Inr crowd_data"
    and "getitem crowd_data ''worker_id'' = Some worker_id"
    and "getitem crowd_data ''agent_registration_id'' = Some rid"
    and "hashable rid"
    and "getitem (data packet) ''request_id'' = Some request_id"
    and "reserve_loop (task_run (task_runner (job ci))) units s = (Some (unit, reserved), s1)"
    and "a = new_from_provider_data (provider (job ci)) worker_id unit crowd_data (trace s1)"
  shows "assign_unit_to_agent packet ci units s =
     launch_tasks ci unit (next_ref s1)
       (s1\<lparr>message_queue := message_queue s1 @
             [\<lparr>packet_type = PACKET_TYPE_PROVIDER_DETAILS, sender_id = SYSTEM_CHANNEL_ID,
               receiver_id = channel_id ci,
               data = [(''request_id'', request_id), (''agent_id'', PyStr (get_agent_id a))]\<rparr>],
           agent_infos := (agent_infos s1)
             (next_ref s1 := \<lparr>agent = a, used_channel_id = channel_id ci,
                               assignment_thread = None\<rparr>),
           next_ref := Suc (next_ref s1),
           agents := (agents s1)(get_agent_id a \<mapsto> next_ref s1),
           agents_by_registration_id := (agents_by_registration_id s1)(rid \<mapsto> next_ref s1),
           trace := trace s1 @
             [New_from_provider_data unit (get_agent_id a),
              Set_agents (get_agent_id a) (next_ref s1),
              Set_agents_by_registration_id rid (next_ref s1),
              Clear_reservation unit]\<rparr>)"
  using assms
  by (simp add: assign_unit_to_agent_def enqueue_provider_details_def Let_def log_event_def)

text \<open>
  Claim C1, as stated, fails between registrations: the reservation is cleared before
  \<^verbatim>\<open>_assign_unit_to_agent\<close> returns, and nothing in the supervisor keeps the next call from
  reserving the same unit again. With a \<^verbatim>\<open>reserve_unit\<close> that fails exactly while a unit is
  reserved, two registrations that are both offered unit \<open>u2\<close> both get it: two agents are
  created for the one unit and both are installed.
\<close>

theorem cleared_unit_is_assigned_again:
  "reserve_unit (task_run (task_runner (job (example_channel_info example_locking_job))))
     ''u2'' [Reserve_unit ''u2'' (Some ''u2'')] = None \<and>
   created_agents (trace (state_of
     (assign_unit_to_agent (example_packet ''r2'' ''reg2'')
        (example_channel_info example_locking_job) [''u2'']
        (state_of (assign_unit_to_agent (example_packet ''r1'' ''reg1'')
           (example_channel_info example_locking_job) [''u2'']
           (example_supervisor (example_db []) (example_channel_info example_locking_job))))))) =
     [(''u2'', ''agent-of-reg1''), (''u2'', ''agent-of-reg2'')] \<and>
   agents (state_of
     (assign_unit_to_agent (example_packet ''r2'' ''reg2'')
        (example_channel_info example_locking_job) [''u2'']
        (state_of (assign_unit_to_agent (example_packet ''r1'' ''reg1'')
           (example_channel_info example_locking_job) [''u2'']
           (example_supervisor (example_db []) (example_channel_info example_locking_job))))))
     ''agent-of-reg1'' = Some 0 \<and>
   agents (state_of
     (assign_unit_to_agent (example_packet ''r2'' ''reg2'')
        (example_channel_info example_locking_job) [''u2'']
        (state_of (assign_unit_to_agent (example_packet ''r1'' ''reg1'')
           (example_channel_info example_locking_job) [''u2'']
           (example_supervisor (example_db []) (example_channel_info example_locking_job))))))
     ''agent-of-reg2'' = Some 1"
  by (simp add: example_defs handler_defs)

text \<open>
  Claim C1, as amended. For a packet that carries \<open>provider_data\<close> (with a worker id and a
  hashable registration id) and a request id, one call of \<^verbatim>\<open>_assign_unit_to_agent\<close> does
  one of two things. Either every
  unit of the list was tried, in order, and none could be reserved: then it returns with one
  \<^verbatim>\<open>PROVIDER_DETAILS\<close> reply with \<open>agent_id\<close> None enqueued, no agent created, and both
  indexes, the store of
  \<^verbatim>\<open>AgentInfo\<close>s and the reference counter unchanged. Or the units before position \<open>k\<close>
  were tried in order and failed, the unit at \<open>k\<close> was reserved, and then, in this order:
  one agent was created for that unit, the new \<^verbatim>\<open>AgentInfo\<close> was written to \<open>agents\<close> and to
  \<open>agents_by_registration_id\<close>, the reservation of that unit was cleared, and at most one
  thread was started. So the call creates at most one agent, only for the unit whose
  reservation it holds, and gives no agent to a unit whose reservation failed.
\<close>

theorem assign_unit_reserves_first_available:
  assumes "provider_data packet = Inr crowd_data"
    and "getitem crowd_data ''worker_id'' = Some worker_id"
    and "getitem crowd_data ''agent_registration_id'' = Some rid"
    and "hashable rid"
    and "getitem (data packet) ''request_id'' = Some request_id"
  shows
  "(\<exists>s'. assign_unit_to_agent packet ci units s = Returned s' \<and>
      new_events s s' = map (\<lambda>u. Reserve_unit u None) units \<and>
      created_agents (new_events s s') = [] \<and>
      message_queue s' = message_queue s @
        [\<lparr>packet_type = PACKET_TYPE_PROVIDER_DETAILS, sender_id = SYSTEM_CHANNEL_ID,
          receiver_id = channel_id ci,
          data = [(''request_id'', request_id), (''agent_id'', PyNone)]\<rparr>] \<and>
      agents s' = agents s \<and>
      agents_by_registration_id s' = agents_by_registration_id s \<and>
      agent_infos s' = agent_infos s \<and>
      next_ref s' = next_ref s) \<or>
   (\<exists>k reserved agent_id rest.
      k < length units \<and>
      new_events s (state_of (assign_unit_to_agent packet ci units s)) =
        map (\<lambda>u. Reserve_unit u None) (take k units) @
        [Reserve_unit (units ! k) (Some reserved),
         New_from_provider_data (units ! k) agent_id,
         Set_agents agent_id (next_ref s),
         Set_agents_by_registration_id rid (next_ref s),
         Clear_reservation (units ! k)] @ rest \<and>
      length rest \<le> 1 \<and> (\<forall>ev \<in> set rest. \<exists>t. ev = Thread_start t) \<and>
      created_agents (new_events s (state_of (assign_unit_to_agent packet ci units s))) =
        [(units ! k, agent_id)] \<and>
      agents (state_of (assign_unit_to_agent packet ci units s)) =
        (agents s)(agent_id \<mapsto> next_ref s) \<and>
      agents_by_registration_id (state_of (assign_unit_to_agent packet ci units s)) =
        (agents_by_registration_id s)(rid \<mapsto> next_ref s) \<and>
      get_agent_id (agent (agent_infos (state_of (assign_unit_to_agent packet ci units s))
                             (next_ref s))) = agent_id \<and>
      used_channel_id (agent_infos (state_of (assign_unit_to_agent packet ci units s))
                         (next_ref s)) = channel_id ci \<and>
      next_ref (state_of (assign_unit_to_agent packet ci units s)) = Suc (next_ref s) \<and>
      message_queue (state_of (assign_unit_to_agent packet ci units s)) = message_queue s @
        [\<lparr>packet_type = PACKET_TYPE_PROVIDER_DETAILS, sender_id = SYSTEM_CHANNEL_ID,
          receiver_id = channel_id ci,
          data = [(''request_id'', request_id), (''agent_id'', PyStr agent_id)]\<rparr>])"
proof -
  obtain res s1 where rl: "reserve_loop (task_run (task_runner (job ci))) units s = (res, s1)"
    by (cases "reserve_loop (task_run (task_runner (job ci))) units s") auto
  note f = reserve_loop_fields [OF rl]
  show ?thesis
  proof (cases res)
    case None
    let ?s' = "s1\<lparr>message_queue := message_queue s1 @
       [\<lparr>packet_type = PACKET_TYPE_PROVIDER_DETAILS, sender_id = SYSTEM_CHANNEL_ID,
         receiver_id = channel_id ci,
         data = [(''request_id'', request_id), (''agent_id'', PyNone)]\<rparr>]\<rparr>"
    have ret: "assign_unit_to_agent packet ci units s = Returned ?s'"
      using assign_unit_to_agent_none [OF assms(1,2,5)] rl None by simp
    have tr: "trace ?s' = trace s @ map (\<lambda>u. Reserve_unit u None) units"
      using reserve_loop_none [of _ units s s1] rl None by simp
    have "new_events s ?s' = map (\<lambda>u. Reserve_unit u None) units"
      using tr by (rule new_events_append)
    then have "assign_unit_to_agent packet ci units s = Returned ?s' \<and>
      new_events s ?s' = map (\<lambda>u. Reserve_unit u None) units \<and>
      created_agents (new_events s ?s') = [] \<and>
      message_queue ?s' = message_queue s @
        [\<lparr>packet_type = PACKET_TYPE_PROVIDER_DETAILS, sender_id = SYSTEM_CHANNEL_ID,
          receiver_id = channel_id ci,
          data = [(''request_id'', request_id), (''agent_id'', PyNone)]\<rparr>] \<and>
      agents ?s' = agents s \<and>
      agents_by_registration_id ?s' = agents_by_registration_id s \<and>
      agent_infos ?s' = agent_infos s \<and>
      next_ref ?s' = next_ref s"
      using ret f by (simp add: created_agents_failed_reserves)
    then show ?thesis by blast
  next
    case (Some ur)
    obtain unit reserved where ur: "ur = (unit, reserved)" by (cases ur) auto
    have rl': "reserve_loop (task_run (task_runner (job ci))) units s = (Some (unit, reserved), s1)"
      using rl Some ur by simp
    obtain k where k: "k < length units" "unit = units ! k"
      "trace s1 = trace s @ map (\<lambda>u. Reserve_unit u None) (take k units) @
                  [Reserve_unit unit (Some reserved)]"
      using reserve_loop_some [OF rl'] by blast
    define a where "a = new_from_provider_data (provider (job ci)) worker_id unit crowd_data (trace s1)"
    define s7 where "s7 = s1\<lparr>message_queue := message_queue s1 @
             [\<lparr>packet_type = PACKET_TYPE_PROVIDER_DETAILS, sender_id = SYSTEM_CHANNEL_ID,
               receiver_id = channel_id ci,
               data = [(''request_id'', request_id), (''agent_id'', PyStr (get_agent_id a))]\<rparr>],
           agent_infos := (agent_infos s1)
             (next_ref s1 := \<lparr>agent = a, used_channel_id = channel_id ci,
                               assignment_thread = None\<rparr>),
           next_ref := Suc (next_ref s1),
           agents := (agents s1)(get_agent_id a \<mapsto> next_ref s1),
           agents_by_registration_id := (agents_by_registration_id s1)(rid \<mapsto> next_ref s1),
           trace := trace s1 @
             [New_from_provider_data unit (get_agent_id a),
              Set_agents (get_agent_id a) (next_ref s1),
              Set_agents_by_registration_id rid (next_ref s1),
              Clear_reservation unit]\<rparr>"
    have out: "assign_unit_to_agent packet ci units s = launch_tasks ci unit (next_ref s1) s7"
      unfolding s7_def by (rule assign_unit_to_agent_some [OF assms rl' a_def])
    let ?s' = "state_of (launch_tasks ci unit (next_ref s1) s7)"
    have lt: "agents ?s' = agents s7" "agents_by_registration_id ?s' = agents_by_registration_id s7"
      "message_queue ?s' = message_queue s7" "next_ref ?s' = next_ref s7"
      "db_id (agent (agent_infos ?s' (next_ref s))) = db_id (agent (agent_infos s7 (next_ref s)))"
      "used_channel_id (agent_infos ?s' (next_ref s)) = used_channel_id (agent_infos s7 (next_ref s))"
      using launch_tasks_frame [of ci unit "next_ref s1" s7 "next_ref s"] by simp_all
    obtain rest where rest: "trace ?s' = trace s7 @ rest" "length rest \<le> 1"
      "\<forall>ev \<in> set rest. \<exists>t. ev = Thread_start t"
      using launch_tasks_frame [of ci unit "next_ref s1" s7 "next_ref s"] by blast
    have tr: "trace ?s' = trace s @
        (map (\<lambda>u. Reserve_unit u None) (take k units) @
        [Reserve_unit (units ! k) (Some reserved),
         New_from_provider_data (units ! k) (get_agent_id a),
         Set_agents (get_agent_id a) (next_ref s),
         Set_agents_by_registration_id rid (next_ref s),
         Clear_reservation (units ! k)] @ rest)"
      using rest(1) k f(8) by (simp add: s7_def)
    have ev: "new_events s ?s' =
        map (\<lambda>u. Reserve_unit u None) (take k units) @
        [Reserve_unit (units ! k) (Some reserved),
         New_from_provider_data (units ! k) (get_agent_id a),
         Set_agents (get_agent_id a) (next_ref s),
         Set_agents_by_registration_id rid (next_ref s),
         Clear_reservation (units ! k)] @ rest"
      using tr by (rule new_events_append)
    have ca: "created_agents (new_events s ?s') = [(units ! k, get_agent_id a)]"
      unfolding ev
      by (simp add: created_agents_append created_agents_failed_reserves
            created_agents_thread_starts [OF rest(3)])
    have st: "agents ?s' = (agents s)(get_agent_id a \<mapsto> next_ref s)"
      "agents_by_registration_id ?s' = (agents_by_registration_id s)(rid \<mapsto> next_ref s)"
      "get_agent_id (agent (agent_infos ?s' (next_ref s))) = get_agent_id a"
      "used_channel_id (agent_infos ?s' (next_ref s)) = channel_id ci"
      "next_ref ?s' = Suc (next_ref s)"
      "message_queue ?s' = message_queue s @
        [\<lparr>packet_type = PACKET_TYPE_PROVIDER_DETAILS, sender_id = SYSTEM_CHANNEL_ID,
          receiver_id = channel_id ci,
          data = [(''request_id'', request_id), (''agent_id'', PyStr (get_agent_id a))]\<rparr>]"
      using lt f by (simp_all add: s7_def get_agent_id_def)
    have "k < length units \<and>
      new_events s (state_of (assign_unit_to_agent packet ci units s)) =
        map (\<lambda>u. Reserve_unit u None) (take k units) @
        [Reserve_unit (units ! k) (Some reserved),
         New_from_provider_data (units ! k) (get_agent_id a),
         Set_agents (get_agent_id a) (next_ref s),
         Set_agents_by_registration_id rid (next_ref s),
         Clear_reservation (units ! k)] @ rest \<and>
      length rest \<le> 1 \<and> (\<forall>ev \<in> set rest. \<exists>t. ev = Thread_start t) \<and>
      created_agents (new_events s (state_of (assign_unit_to_agent packet ci units s))) =
        [(units ! k, get_agent_id a)] \<and>
      agents (state_of (assign_unit_to_agent packet ci units s)) =
        (agents s)(get_agent_id a \<mapsto> next_ref s) \<and>
      agents_by_registration_id (state_of (assign_unit_to_agent packet ci units s)) =
        (agents_by_registration_id s)(rid \<mapsto> next_ref s) \<and>
      get_agent_id (agent (agent_infos (state_of (assign_unit_to_agent packet ci units s))
                             (next_ref s))) = get_agent_id a \<and>
      used_channel_id (agent_infos (state_of (assign_unit_to_agent packet ci units s))
                         (next_ref s)) = channel_id ci \<and>
      next_ref (state_of (assign_unit_to_agent packet ci units s)) = Suc (next_ref s) \<and>
      message_queue (state_of (assign_unit_to_agent packet ci units s)) = message_queue s @
        [\<lparr>packet_type = PACKET_TYPE_PROVIDER_DETAILS, sender_id = SYSTEM_CHANNEL_ID,
          receiver_id = channel_id ci,
          data = [(''request_id'', request_id), (''agent_id'', PyStr (get_agent_id a))]\<rparr>]"
      unfolding out using k(1) ev rest(2,3) ca st by blast
    then show ?thesis by blast
  qed
qed

text \<open>The theorem at a concrete input.\<close>

theorem assign_unit_reserves_first_available_witness:
  "provider_data (example_packet ''r1'' ''reg1'') =
     Inr [(''agent_registration_id'', PyStr ''reg1''), (''worker_id'', PyStr ''w1'')] \<and>
   getitem [(''agent_registration_id'', PyStr ''reg1''), (''worker_id'', PyStr ''w1'')]
     ''worker_id'' = Some (PyStr ''w1'') \<and>
   getitem [(''agent_registration_id'', PyStr ''reg1''), (''worker_id'', PyStr ''w1'')]
     ''agent_registration_id'' = Some (PyStr ''reg1'') \<and>
   hashable (PyStr ''reg1'') \<and>
   getitem (data (example_packet ''r1'' ''reg1'')) ''request_id'' = Some (PyStr ''r1'') \<and>
   new_events (example_supervisor (example_db []) (example_channel_info (example_job False False [])))
     (state_of (assign_unit_to_agent (example_packet ''r1'' ''reg1'')
        (example_channel_info (example_job False False [])) [''u1'', ''u2'']
        (example_supervisor (example_db []) (example_channel_info (example_job False False []))))) =
     [Reserve_unit ''u1'' None, Reserve_unit ''u2'' (Some ''u2''),
      New_from_provider_data ''u2'' ''agent-u2'', Set_agents ''agent-u2'' 0,
      Set_agents_by_registration_id (PyStr ''reg1'') 0, Clear_reservation ''u2'',
      Thread_start \<lparr>target = Launch_and_run_unit ''u2'' 0, thread_name = ''Unit-thread-u2''\<rparr>] \<and>
   ((\<exists>s'. assign_unit_to_agent (example_packet ''r1'' ''reg1'')
        (example_channel_info (example_job False False [])) [''u1'', ''u2'']
        (example_supervisor (example_db []) (example_channel_info (example_job False False []))) =
          Returned s' \<and> next_ref s' = 0) \<or>
    next_ref (state_of (assign_unit_to_agent (example_packet ''r1'' ''reg1'')
        (example_channel_info (example_job False False [])) [''u1'', ''u2'']
        (example_supervisor (example_db []) (example_channel_info (example_job False False []))))) =
      Suc 0)"
proof -
  let ?p = "example_packet ''r1'' ''reg1''"
  let ?ci = "example_channel_info (example_job False False [])"
  let ?s = "example_supervisor (example_db []) ?ci"
  let ?cd = "[(''agent_registration_id'', PyStr ''reg1''), (''worker_id'', PyStr ''w1'')]"
  have h1: "provider_data ?p = Inr ?cd"
    by (simp add: example_defs handler_defs)
  have h2: "getitem ?cd ''worker_id'' = Some (PyStr ''w1'')"
    by (simp add: getitem_def)
  have h3: "getitem ?cd ''agent_registration_id'' = Some (PyStr ''reg1'')"
    by (simp add: getitem_def)
  have h4: "getitem (data ?p) ''request_id'' = Some (PyStr ''r1'')"
    by (simp add: example_defs handler_defs)
  have hh: "hashable (PyStr ''reg1'')" by (simp add: hashable_def)
  have n: "next_ref ?s = 0" by (simp add: example_defs)
  have e: "new_events ?s (state_of (assign_unit_to_agent ?p ?ci [''u1'', ''u2''] ?s)) =
     [Reserve_unit ''u1'' None, Reserve_unit ''u2'' (Some ''u2''),
      New_from_provider_data ''u2'' ''agent-u2'', Set_agents ''agent-u2'' 0,
      Set_agents_by_registration_id (PyStr ''reg1'') 0, Clear_reservation ''u2'',
      Thread_start \<lparr>target = Launch_and_run_unit ''u2'' 0, thread_name = ''Unit-thread-u2''\<rparr>]"
    by (simp add: example_defs handler_defs new_events_def)
  have c: "(\<exists>s'. assign_unit_to_agent ?p ?ci [''u1'', ''u2''] ?s = Returned s' \<and> next_ref s' = 0) \<or>
    next_ref (state_of (assign_unit_to_agent ?p ?ci [''u1'', ''u2''] ?s)) = Suc 0"
    using assign_unit_reserves_first_available [OF h1 h2 h3 hh h4, of ?ci "[''u1'', ''u2'']" ?s]
    unfolding n by blast
  show ?thesis using h1 h2 h3 hh h4 e c by (intro conjI)
qed

lemma start_onboarding_reply:
  assumes "getitem (data packet) ''request_id'' = Some request_id"
  shows "\<exists>s'. start_onboarding packet ci worker_id s = Returned s' \<and>
     message_queue s' = message_queue s @
       [\<lparr>packet_type = PACKET_TYPE_PROVIDER_DETAILS, sender_id = SYSTEM_CHANNEL_ID,
         receiver_id = channel_id ci,
         data = [(''request_id'', request_id),
                 (''agent_id'', PyStr (get_agent_id (onboarding_agent_new (db s) worker_id (trace s)))),
                 (''onboard_data'',
                    get_onboarding_data (get_blueprint (task_run (task_runner (job ci))))
                      worker_id (trace s))]\<rparr>] \<and>
     agents s' = (agents s)
       (get_agent_id (onboarding_agent_new (db s) worker_id (trace s)) \<mapsto> next_ref s) \<and>
     next_ref s' = Suc (next_ref s)"
  using assms
  by (simp add: start_onboarding_def enqueue_provider_details_def Let_def get_agent_id_def)

text \<open>
  Claim C5. When the registration id (a hashable value, as any dict key) is unknown and
  \<^verbatim>\<open>get_valid_units_for_worker\<close> returns
  the empty list, \<^verbatim>\<open>_register_agent\<close> returns having enqueued two replies for the request:
  first a \<^verbatim>\<open>PROVIDER_DETAILS\<close> reply with \<open>agent_id\<close> None, then a second
  \<^verbatim>\<open>PROVIDER_DETAILS\<close> reply with the same request id, which is either another
  \<open>agent_id\<close> None reply or the onboarding reply of a newly installed onboarding agent.
\<close>

theorem no_units_reply_is_followed_by_second_reply:
  assumes "provider_data packet = Inr crowd_data"
    and "getitem crowd_data ''agent_registration_id'' = Some rid"
    and "hashable rid"
    and "agents_by_registration_id s rid = None"
    and "getitem crowd_data ''worker_id'' = Some worker_id"
    and "get_valid_units_for_worker (task_run (task_runner (job ci))) worker_id (trace s) = []"
    and "getitem (data packet) ''request_id'' = Some request_id"
  shows "\<exists>s' second.
     register_agent packet ci s = Returned s' \<and>
     message_queue s' = message_queue s @
       [\<lparr>packet_type = PACKET_TYPE_PROVIDER_DETAILS, sender_id = SYSTEM_CHANNEL_ID,
         receiver_id = channel_id ci,
         data = [(''request_id'', request_id), (''agent_id'', PyNone)]\<rparr>,
        second] \<and>
     packet_type second = PACKET_TYPE_PROVIDER_DETAILS \<and>
     receiver_id second = channel_id ci \<and>
     getitem (data second) ''request_id'' = Some request_id \<and>
     (getitem (data second) ''agent_id'' = Some PyNone \<or>
      (\<exists>onboard_id. getitem (data second) ''agent_id'' = Some (PyStr onboard_id) \<and>
                     getitem (data second) ''onboard_data'' \<noteq> None \<and>
                     agents s' onboard_id = Some (next_ref s)))"
proof -
  let ?none = "\<lparr>packet_type = PACKET_TYPE_PROVIDER_DETAILS, sender_id = SYSTEM_CHANNEL_ID,
         receiver_id = channel_id ci,
         data = [(''request_id'', request_id), (''agent_id'', PyNone)]\<rparr>"
  let ?s1 = "s\<lparr>message_queue := message_queue s @ [?none]\<rparr>"
  let ?bp = "get_blueprint (task_run (task_runner (job ci)))"
  let ?disq = "is_disqualified (db s) worker_id (onboarding_qualification_name ?bp) (trace s)"
  let ?qual = "is_qualified (db s) worker_id (onboarding_qualification_name ?bp) (trace s)"
  have reg: "register_agent packet ci s =
     (if use_onboarding ?bp then
        (if ?disq then enqueue_provider_details packet ci [(''agent_id'', PyNone)] ?s1
         else if \<not> ?qual then start_onboarding packet ci worker_id ?s1
         else assign_unit_to_agent packet ci [] ?s1)
      else assign_unit_to_agent packet ci [] ?s1)"
    using assms
    by (simp add: register_agent_def lookup_registration_def register_new_agent_def
          enqueue_provider_details_def Let_def)
  have again: "enqueue_provider_details packet ci [(''agent_id'', PyNone)] ?s1 =
     Returned (?s1\<lparr>message_queue := message_queue ?s1 @ [?none]\<rparr>)"
    using assms(7) by (simp add: enqueue_provider_details_def)
  have assign: "assign_unit_to_agent packet ci [] ?s1 =
     Returned (?s1\<lparr>message_queue := message_queue ?s1 @ [?none]\<rparr>)"
    using assign_unit_to_agent_none [OF assms(1,5,7), of ci "[]" ?s1 ?s1] by simp
  have second_none: "\<exists>s' second.
     Returned (?s1\<lparr>message_queue := message_queue ?s1 @ [?none]\<rparr>) = Returned s' \<and>
     message_queue s' = message_queue s @ [?none, second] \<and>
     packet_type second = PACKET_TYPE_PROVIDER_DETAILS \<and>
     receiver_id second = channel_id ci \<and>
     getitem (data second) ''request_id'' = Some request_id \<and>
     (getitem (data second) ''agent_id'' = Some PyNone \<or>
      (\<exists>onboard_id. getitem (data second) ''agent_id'' = Some (PyStr onboard_id) \<and>
                     getitem (data second) ''onboard_data'' \<noteq> None \<and>
                     agents s' onboard_id = Some (next_ref s)))"
    by (rule exI [of _ "?s1\<lparr>message_queue := message_queue ?s1 @ [?none]\<rparr>"],
        rule exI [of _ ?none]) (simp add: getitem_def)
  show ?thesis
  proof (cases "use_onboarding ?bp \<and> \<not> ?disq \<and> \<not> ?qual")
    case False
    then have "register_agent packet ci s =
       Returned (?s1\<lparr>message_queue := message_queue ?s1 @ [?none]\<rparr>)"
      using reg again assign by auto
    then show ?thesis using second_none by simp
  next
    case True
    let ?oid = "get_agent_id (onboarding_agent_new (db ?s1) worker_id (trace ?s1))"
    let ?second = "\<lparr>packet_type = PACKET_TYPE_PROVIDER_DETAILS, sender_id = SYSTEM_CHANNEL_ID,
         receiver_id = channel_id ci,
         data = [(''request_id'', request_id), (''agent_id'', PyStr ?oid),
                 (''onboard_data'', get_onboarding_data ?bp worker_id (trace ?s1))]\<rparr>"
    obtain s' where s': "start_onboarding packet ci worker_id ?s1 = Returned s'"
      "message_queue s' = message_queue ?s1 @ [?second]"
      "agents s' = (agents ?s1)(?oid \<mapsto> next_ref ?s1)"
      using start_onboarding_reply [OF assms(7), of ci worker_id ?s1] by blast
    have r: "register_agent packet ci s = Returned s'"
      using reg True s'(1) by simp
    have "register_agent packet ci s = Returned s' \<and>
     message_queue s' = message_queue s @ [?none, ?second] \<and>
     packet_type ?second = PACKET_TYPE_PROVIDER_DETAILS \<and>
     receiver_id ?second = channel_id ci \<and>
     getitem (data ?second) ''request_id'' = Some request_id \<and>
     (getitem (data ?second) ''agent_id'' = Some PyNone \<or>
      (\<exists>onboard_id. getitem (data ?second) ''agent_id'' = Some (PyStr onboard_id) \<and>
                     getitem (data ?second) ''onboard_data'' \<noteq> None \<and>
                     agents s' onboard_id = Some (next_ref s)))"
      using r s'(2,3) by (simp add: getitem_def)
    then show ?thesis by blast
  qed
qed

text \<open>The theorem at a concrete input.\<close>

theorem no_units_reply_is_followed_by_second_reply_witness:
  "provider_data (example_packet ''r1'' ''reg1'') =
     Inr [(''agent_registration_id'', PyStr ''reg1''), (''worker_id'', PyStr ''w1'')] \<and>
   getitem [(''agent_registration_id'', PyStr ''reg1''), (''worker_id'', PyStr ''w1'')]
     ''agent_registration_id'' = Some (PyStr ''reg1'') \<and>
   hashable (PyStr ''reg1'') \<and>
   agents_by_registration_id
     (example_supervisor (example_db []) (example_channel_info (example_job False True [])))
     (PyStr ''reg1'') = None \<and>
   getitem [(''agent_registration_id'', PyStr ''reg1''), (''worker_id'', PyStr ''w1'')]
     ''worker_id'' = Some (PyStr ''w1'') \<and>
   get_valid_units_for_worker
     (task_run (task_runner (job (example_channel_info (example_job False True [])))))
     (PyStr ''w1'')
     (trace (example_supervisor (example_db []) (example_channel_info (example_job False True []))))
     = [] \<and>
   getitem (data (example_packet ''r1'' ''reg1'')) ''request_id'' = Some (PyStr ''r1'') \<and>
   message_queue (state_of (register_agent (example_packet ''r1'' ''reg1'')
      (example_channel_info (example_job False True []))
      (example_supervisor (example_db []) (example_channel_info (example_job False True []))))) =
     [\<lparr>packet_type = PACKET_TYPE_PROVIDER_DETAILS, sender_id = ''mephisto'', receiver_id = ''c1'',
       data = [(''request_id'', PyStr ''r1''), (''agent_id'', PyNone)]\<rparr>,
      \<lparr>packet_type = PACKET_TYPE_PROVIDER_DETAILS, sender_id = ''mephisto'', receiver_id = ''c1'',
       data = [(''request_id'', PyStr ''r1''), (''agent_id'', PyStr ''onboarding-1''),
               (''onboard_data'', PyDict [])]\<rparr>] \<and>
   (\<exists>s'. register_agent (example_packet ''r1'' ''reg1'')
      (example_channel_info (example_job False True []))
      (example_supervisor (example_db []) (example_channel_info (example_job False True []))) =
        Returned s' \<and> length (message_queue s') = 2)"
proof -
  let ?p = "example_packet ''r1'' ''reg1''"
  let ?ci = "example_channel_info (example_job False True [])"
  let ?s = "example_supervisor (example_db []) ?ci"
  let ?cd = "[(''agent_registration_id'', PyStr ''reg1''), (''worker_id'', PyStr ''w1'')]"
  have h1: "provider_data ?p = Inr ?cd" by (simp add: example_defs handler_defs)
  have h2: "getitem ?cd ''agent_registration_id'' = Some (PyStr ''reg1'')"
    by (simp add: getitem_def)
  have hh: "hashable (PyStr ''reg1'')" by (simp add: hashable_def)
  have h3: "agents_by_registration_id ?s (PyStr ''reg1'') = None" by (simp add: example_defs)
  have h4: "getitem ?cd ''worker_id'' = Some (PyStr ''w1'')" by (simp add: getitem_def)
  have h5: "get_valid_units_for_worker (task_run (task_runner (job ?ci))) (PyStr ''w1'') (trace ?s) = []"
    by (simp add: example_defs)
  have h6: "getitem (data ?p) ''request_id'' = Some (PyStr ''r1'')"
    by (simp add: example_defs handler_defs)
  have m0: "message_queue ?s = []" by (simp add: example_defs)
  have e: "message_queue (state_of (register_agent ?p ?ci ?s)) =
     [\<lparr>packet_type = PACKET_TYPE_PROVIDER_DETAILS, sender_id = ''mephisto'', receiver_id = ''c1'',
       data = [(''request_id'', PyStr ''r1''), (''agent_id'', PyNone)]\<rparr>,
      \<lparr>packet_type = PACKET_TYPE_PROVIDER_DETAILS, sender_id = ''mephisto'', receiver_id = ''c1'',
       data = [(''request_id'', PyStr ''r1''), (''agent_id'', PyStr ''onboarding-1''),
               (''onboard_data'', PyDict [])]\<rparr>]"
    by (simp add: example_defs handler_defs)
  obtain s' second where s': "register_agent ?p ?ci ?s = Returned s'"
    "message_queue s' = message_queue ?s @
       [\<lparr>packet_type = PACKET_TYPE_PROVIDER_DETAILS, sender_id = SYSTEM_CHANNEL_ID,
         receiver_id = channel_id ?ci,
         data = [(''request_id'', PyStr ''r1''), (''agent_id'', PyNone)]\<rparr>,
        second]"
    using no_units_reply_is_followed_by_second_reply [OF h1 h2 hh h3 h4 h5 h6] by blast
  have "length (message_queue s') = 2" using s'(2) m0 by simp
  then have c: "\<exists>s'. register_agent ?p ?ci ?s = Returned s' \<and> length (message_queue s') = 2"
    using s'(1) by blast
  show ?thesis using h1 h2 hh h3 h4 h5 h6 e c by (intro conjI)
qed

lemma register_agent_reconnect:
  assumes "provider_data packet = Inr crowd_data"
    and "getitem crowd_data ''agent_registration_id'' = Some rid"
    and "agents_by_registration_id s rid = Some r"
    and "agents s (get_agent_id (agent (agent_infos s r))) = Some r'"
    and "getitem (data packet) ''request_id'' = Some request_id"
  shows "register_agent packet ci s =
     Returned (s\<lparr>agent_infos := (agent_infos s)
                    (r' := (agent_infos s r')\<lparr>used_channel_id := channel_id ci\<rparr>),
                 message_queue := message_queue s @
                   [\<lparr>packet_type = PACKET_TYPE_PROVIDER_DETAILS, sender_id = SYSTEM_CHANNEL_ID,
                     receiver_id = channel_id ci,
                     data = [(''request_id'', request_id),
                             (''agent_id'', PyStr (get_agent_id (agent (agent_infos s r))))]\<rparr>]\<rparr>)"
  using assms
  by (simp add: register_agent_def lookup_registration_def enqueue_provider_details_def Let_def
        update_agent_info_def)

text \<open>
  Claim C2, as amended. Once a registration id is a key of \<open>agents_by_registration_id\<close> and
  the agent it leads to is tracked in \<open>agents\<close>, every sequence of \<^verbatim>\<open>NEW_AGENT\<close> packets
  with that registration id (each with a request id) is handled without creating an
  \<^verbatim>\<open>AgentInfo\<close>, without any call to the outside, and without changing either index: each
  packet only sets \<open>used_channel_id\<close> of the tracked \<^verbatim>\<open>AgentInfo\<close> to the channel it arrived
  on and enqueues one \<^verbatim>\<open>PROVIDER_DETAILS\<close> reply with its own request id and the existing
  agent's id.
\<close>

theorem known_registration_id_reconnects:
  assumes "agents_by_registration_id s rid = Some r"
    and "agents s (get_agent_id (agent (agent_infos s r))) = Some r'"
    and "\<forall>arrival \<in> set arrivals.
           (\<exists>crowd_data. provider_data (fst arrival) = Inr crowd_data \<and>
              getitem crowd_data ''agent_registration_id'' = Some rid) \<and>
           getitem (data (fst arrival)) ''request_id'' \<noteq> None"
  shows "\<exists>s'. register_agents arrivals s = Returned s' \<and>
     next_ref s' = next_ref s \<and>
     agents s' = agents s \<and>
     agents_by_registration_id s' = agents_by_registration_id s \<and>
     onboarding_packets s' = onboarding_packets s \<and>
     trace s' = trace s \<and>
     (\<forall>r0. agent (agent_infos s' r0) = agent (agent_infos s r0) \<and>
           assignment_thread (agent_infos s' r0) = assignment_thread (agent_infos s r0)) \<and>
     (\<forall>r0. r0 \<noteq> r' \<longrightarrow> agent_infos s' r0 = agent_infos s r0) \<and>
     (arrivals \<noteq> [] \<longrightarrow>
        used_channel_id (agent_infos s' r') = channel_id (snd (last arrivals))) \<and>
     message_queue s' = message_queue s @
       map (\<lambda>arrival.
              \<lparr>packet_type = PACKET_TYPE_PROVIDER_DETAILS, sender_id = SYSTEM_CHANNEL_ID,
               receiver_id = channel_id (snd arrival),
               data = [(''request_id'', the (getitem (data (fst arrival)) ''request_id'')),
                       (''agent_id'', PyStr (get_agent_id (agent (agent_infos s r))))]\<rparr>)
           arrivals"
  using assms
proof (induction arrivals arbitrary: s)
  case Nil
  show ?case by simp
next
  case (Cons arrival arrivals)
  obtain crowd_data request_id where wf:
    "provider_data (fst arrival) = Inr crowd_data"
    "getitem crowd_data ''agent_registration_id'' = Some rid"
    "getitem (data (fst arrival)) ''request_id'' = Some request_id"
    using Cons.prems(3) by auto
  let ?reply = "\<lparr>packet_type = PACKET_TYPE_PROVIDER_DETAILS, sender_id = SYSTEM_CHANNEL_ID,
                     receiver_id = channel_id (snd arrival),
                     data = [(''request_id'', request_id),
                             (''agent_id'', PyStr (get_agent_id (agent (agent_infos s r))))]\<rparr>"
  let ?s1 = "s\<lparr>agent_infos := (agent_infos s)
                    (r' := (agent_infos s r')\<lparr>used_channel_id := channel_id (snd arrival)\<rparr>),
                 message_queue := message_queue s @ [?reply]\<rparr>"
  have first: "register_agent (fst arrival) (snd arrival) s = Returned ?s1"
    by (rule register_agent_reconnect [OF wf(1,2) Cons.prems(1,2) wf(3)])
  have same: "\<And>r0. agent (agent_infos ?s1 r0) = agent (agent_infos s r0)"
    "\<And>r0. assignment_thread (agent_infos ?s1 r0) = assignment_thread (agent_infos s r0)"
    "\<And>r0. r0 \<noteq> r' \<Longrightarrow> agent_infos ?s1 r0 = agent_infos s r0"
    by simp_all
  have p1: "agents_by_registration_id ?s1 rid = Some r"
    using Cons.prems(1) by simp
  have p2: "agents ?s1 (get_agent_id (agent (agent_infos ?s1 r))) = Some r'"
    using Cons.prems(2) by (simp only: same) simp
  have p3: "\<forall>arrival \<in> set arrivals.
           (\<exists>crowd_data. provider_data (fst arrival) = Inr crowd_data \<and>
              getitem crowd_data ''agent_registration_id'' = Some rid) \<and>
           getitem (data (fst arrival)) ''request_id'' \<noteq> None"
    using Cons.prems(3) by simp
  obtain s' where s': "register_agents arrivals ?s1 = Returned s'"
     "next_ref s' = next_ref ?s1"
     "agents s' = agents ?s1"
     "agents_by_registration_id s' = agents_by_registration_id ?s1"
     "onboarding_packets s' = onboarding_packets ?s1"
     "trace s' = trace ?s1"
     "\<forall>r0. agent (agent_infos s' r0) = agent (agent_infos ?s1 r0) \<and>
           assignment_thread (agent_infos s' r0) = assignment_thread (agent_infos ?s1 r0)"
     "\<forall>r0. r0 \<noteq> r' \<longrightarrow> agent_infos s' r0 = agent_infos ?s1 r0"
     "arrivals \<noteq> [] \<longrightarrow>
        used_channel_id (agent_infos s' r') = channel_id (snd (last arrivals))"
     "message_queue s' = message_queue ?s1 @
       map (\<lambda>arrival.
              \<lparr>packet_type = PACKET_TYPE_PROVIDER_DETAILS, sender_id = SYSTEM_CHANNEL_ID,
               receiver_id = channel_id (snd arrival),
               data = [(''request_id'', the (getitem (data (fst arrival)) ''request_id'')),
                       (''agent_id'', PyStr (get_agent_id (agent (agent_infos ?s1 r))))]\<rparr>)
           arrivals"
    using Cons.IH [OF p1 p2 p3] by blast
  have run: "register_agents (arrival # arrivals) s = Returned s'"
    using first s'(1) by simp
  have ch: "used_channel_id (agent_infos s' r') = channel_id (snd (last (arrival # arrivals)))"
  proof (cases "arrivals = []")
    case True
    then have "s' = ?s1" using s'(1) by simp
    then show ?thesis using True by simp
  next
    case False
    then show ?thesis using s'(9) by simp
  qed
  have mq: "message_queue s' = message_queue s @
       map (\<lambda>arrival.
              \<lparr>packet_type = PACKET_TYPE_PROVIDER_DETAILS, sender_id = SYSTEM_CHANNEL_ID,
               receiver_id = channel_id (snd arrival),
               data = [(''request_id'', the (getitem (data (fst arrival)) ''request_id'')),
                       (''agent_id'', PyStr (get_agent_id (agent (agent_infos s r))))]\<rparr>)
           (arrival # arrivals)"
    using s'(10) wf(3) by (simp only: same) simp
  have a7: "\<forall>r0. agent (agent_infos s' r0) = agent (agent_infos s r0) \<and>
           assignment_thread (agent_infos s' r0) = assignment_thread (agent_infos s r0)"
    using s'(7) same(1,2) by simp
  have a8: "\<forall>r0. r0 \<noteq> r' \<longrightarrow> agent_infos s' r0 = agent_infos s r0"
    using s'(8) same(3) by simp
  have "register_agents (arrival # arrivals) s = Returned s' \<and>
     next_ref s' = next_ref s \<and>
     agents s' = agents s \<and>
     agents_by_registration_id s' = agents_by_registration_id s \<and>
     onboarding_packets s' = onboarding_packets s \<and>
     trace s' = trace s \<and>
     (\<forall>r0. agent (agent_infos s' r0) = agent (agent_infos s r0) \<and>
           assignment_thread (agent_infos s' r0) = assignment_thread (agent_infos s r0)) \<and>
     (\<forall>r0. r0 \<noteq> r' \<longrightarrow> agent_infos s' r0 = agent_infos s r0) \<and>
     (arrival # arrivals \<noteq> [] \<longrightarrow>
        used_channel_id (agent_infos s' r') = channel_id (snd (last (arrival # arrivals)))) \<and>
     message_queue s' = message_queue s @
       map (\<lambda>arrival.
              \<lparr>packet_type = PACKET_TYPE_PROVIDER_DETAILS, sender_id = SYSTEM_CHANNEL_ID,
               receiver_id = channel_id (snd arrival),
               data = [(''request_id'', the (getitem (data (fst arrival)) ''request_id'')),
                       (''agent_id'', PyStr (get_agent_id (agent (agent_infos s r))))]\<rparr>)
           (arrival # arrivals)"
    using run s'(2-6) a7 a8 ch mq by simp
  then show ?case by blast
qed

text \<open>The theorem at a concrete input.\<close>

theorem known_registration_id_reconnects_witness:
  "agents_by_registration_id
     (example_tracking [example_agent ''agent-u2'' STATUS_IN_TASK]
        (example_supervisor (example_db []) (example_channel_info (example_job False False []))))
     (PyStr ''reg-agent-u2'') = Some 0 \<and>
   agents
     (example_tracking [example_agent ''agent-u2'' STATUS_IN_TASK]
        (example_supervisor (example_db []) (example_channel_info (example_job False False []))))
     (get_agent_id (agent (agent_infos
        (example_tracking [example_agent ''agent-u2'' STATUS_IN_TASK]
           (example_supervisor (example_db []) (example_channel_info (example_job False False []))))
        0))) = Some 0 \<and>
   provider_data (example_packet ''r5'' ''reg-agent-u2'') =
     Inr [(''agent_registration_id'', PyStr ''reg-agent-u2''), (''worker_id'', PyStr ''w1'')] \<and>
   provider_data (example_packet ''r6'' ''reg-agent-u2'') =
     Inr [(''agent_registration_id'', PyStr ''reg-agent-u2''), (''worker_id'', PyStr ''w1'')] \<and>
   getitem [(''agent_registration_id'', PyStr ''reg-agent-u2''), (''worker_id'', PyStr ''w1'')]
     ''agent_registration_id'' = Some (PyStr ''reg-agent-u2'') \<and>
   getitem (data (example_packet ''r5'' ''reg-agent-u2'')) ''request_id'' = Some (PyStr ''r5'') \<and>
   getitem (data (example_packet ''r6'' ''reg-agent-u2'')) ''request_id'' = Some (PyStr ''r6'') \<and>
   message_queue (state_of (register_agents
      [(example_packet ''r5'' ''reg-agent-u2'', example_channel_info (example_job False False [])),
       (example_packet ''r6'' ''reg-agent-u2'', example_channel_info (example_job False False []))]
      (example_tracking [example_agent ''agent-u2'' STATUS_IN_TASK]
        (example_supervisor (example_db []) (example_channel_info (example_job False False [])))))) =
     [\<lparr>packet_type = PACKET_TYPE_PROVIDER_DETAILS, sender_id = ''mephisto'', receiver_id = ''c1'',
       data = [(''request_id'', PyStr ''r5''), (''agent_id'', PyStr ''agent-u2'')]\<rparr>,
      \<lparr>packet_type = PACKET_TYPE_PROVIDER_DETAILS, sender_id = ''mephisto'', receiver_id = ''c1'',
       data = [(''request_id'', PyStr ''r6''), (''agent_id'', PyStr ''agent-u2'')]\<rparr>] \<and>
   next_ref (state_of (register_agents
      [(example_packet ''r5'' ''reg-agent-u2'', example_channel_info (example_job False False [])),
       (example_packet ''r6'' ''reg-agent-u2'', example_channel_info (example_job False False []))]
      (example_tracking [example_agent ''agent-u2'' STATUS_IN_TASK]
        (example_supervisor (example_db []) (example_channel_info (example_job False False [])))))) =
     1"
proof -
  let ?ci = "example_channel_info (example_job False False [])"
  let ?s = "example_tracking [example_agent ''agent-u2'' STATUS_IN_TASK]
        (example_supervisor (example_db []) ?ci)"
  let ?p5 = "example_packet ''r5'' ''reg-agent-u2''"
  let ?p6 = "example_packet ''r6'' ''reg-agent-u2''"
  let ?cd = "[(''agent_registration_id'', PyStr ''reg-agent-u2''), (''worker_id'', PyStr ''w1'')]"
  have h1: "agents_by_registration_id ?s (PyStr ''reg-agent-u2'') = Some 0"
    by (simp add: example_defs)
  have h2: "agents ?s (get_agent_id (agent (agent_infos ?s 0))) = Some 0"
    by (simp add: example_defs get_agent_id_def)
  have p5: "provider_data ?p5 = Inr ?cd" by (simp add: example_defs handler_defs)
  have p6: "provider_data ?p6 = Inr ?cd" by (simp add: example_defs handler_defs)
  have g: "getitem ?cd ''agent_registration_id'' = Some (PyStr ''reg-agent-u2'')"
    by (simp add: getitem_def)
  have q5: "getitem (data ?p5) ''request_id'' = Some (PyStr ''r5'')"
    by (simp add: example_defs handler_defs)
  have q6: "getitem (data ?p6) ''request_id'' = Some (PyStr ''r6'')"
    by (simp add: example_defs handler_defs)
  have h3: "\<forall>arrival \<in> set [(?p5, ?ci), (?p6, ?ci)].
           (\<exists>crowd_data. provider_data (fst arrival) = Inr crowd_data \<and>
              getitem crowd_data ''agent_registration_id'' = Some (PyStr ''reg-agent-u2'')) \<and>
           getitem (data (fst arrival)) ''request_id'' \<noteq> None"
    using p5 p6 g q5 q6 by simp
  have n: "next_ref ?s = 1" by (simp add: example_defs)
  have m: "message_queue (state_of (register_agents [(?p5, ?ci), (?p6, ?ci)] ?s)) =
     [\<lparr>packet_type = PACKET_TYPE_PROVIDER_DETAILS, sender_id = ''mephisto'', receiver_id = ''c1'',
       data = [(''request_id'', PyStr ''r5''), (''agent_id'', PyStr ''agent-u2'')]\<rparr>,
      \<lparr>packet_type = PACKET_TYPE_PROVIDER_DETAILS, sender_id = ''mephisto'', receiver_id = ''c1'',
       data = [(''request_id'', PyStr ''r6''), (''agent_id'', PyStr ''agent-u2'')]\<rparr>]"
    by (simp add: example_defs handler_defs)
  obtain s' where s': "register_agents [(?p5, ?ci), (?p6, ?ci)] ?s = Returned s'"
    "next_ref s' = next_ref ?s"
    using known_registration_id_reconnects [OF h1 h2 h3] by blast
  have c: "next_ref (state_of (register_agents [(?p5, ?ci), (?p6, ?ci)] ?s)) = 1"
    using s' n by simp
  show ?thesis using h1 h2 p5 p6 g q5 q6 m c by (intro conjI)
qed

text \<open>
  Claim C2, as stated, fails for packets that arrive while the worker is onboarding: an
  onboarding agent is written to \<open>agents\<close> only, never to \<open>agents_by_registration_id\<close>, so
  a second \<^verbatim>\<open>NEW_AGENT\<close> packet with the same registration id is not recognised and
  produces a second \<^verbatim>\<open>AgentInfo\<close>.
\<close>

theorem repeated_registration_during_onboarding:
  "getitem (data (example_packet ''r1'' ''reg1'')) ''provider_data'' =
     getitem (data (example_packet ''r2'' ''reg1'')) ''provider_data'' \<and>
   next_ref (example_supervisor (example_db [])
               (example_channel_info (example_job False True [''u2'']))) = 0 \<and>
   next_ref (state_of (register_agents
      [(example_packet ''r1'' ''reg1'', example_channel_info (example_job False True [''u2'']))]
      (example_supervisor (example_db [])
         (example_channel_info (example_job False True [''u2'']))))) = 1 \<and>
   next_ref (state_of (register_agents
      [(example_packet ''r1'' ''reg1'', example_channel_info (example_job False True [''u2''])),
       (example_packet ''r2'' ''reg1'', example_channel_info (example_job False True [''u2'']))]
      (example_supervisor (example_db [])
         (example_channel_info (example_job False True [''u2'']))))) = 2 \<and>
   agents (state_of (register_agents
      [(example_packet ''r1'' ''reg1'', example_channel_info (example_job False True [''u2'']))]
      (example_supervisor (example_db [])
         (example_channel_info (example_job False True [''u2'']))))) ''onboarding-2'' = None \<and>
   agents (state_of (register_agents
      [(example_packet ''r1'' ''reg1'', example_channel_info (example_job False True [''u2''])),
       (example_packet ''r2'' ''reg1'', example_channel_info (example_job False True [''u2'']))]
      (example_supervisor (example_db [])
         (example_channel_info (example_job False True [''u2'']))))) ''onboarding-2'' = Some 1"
  by (simp add: example_defs handler_defs)


end
